theory Spec2Isabelle
  imports Main "HOL-Library.Word" "HOL-Library.Sublist"
begin

section \<open>Configuration (internal/config)\<close>

text \<open>
  The structs of \<^verbatim>\<open>internal/config\<close>. Go field names repeat between the structs, so
  each record prefixes them: \<open>p_\<close> for Project, \<open>ap_\<close> for AuthProfile, \<open>n_\<close> for
  Notifier and \<open>cfg_\<close> for Config. An \<^verbatim>\<open>Enabled *bool\<close> is a \<open>bool option\<close>, \<open>None\<close>
  being the nil pointer. A \<^verbatim>\<open>map[string]string\<close> is a list of pairs: for an
  AuthProfile the list is read in the order in which \<^verbatim>\<open>range\<close> visits the map (which
  Go leaves open), for a Notifier it is only looked up.
\<close>

record Project =
  p_Name :: string
  p_Path :: string
  p_AuthProfile :: string
  p_Notifiers :: "string list"
  p_Enabled :: "bool option"

record AuthProfile =
  ap_Name :: string
  ap_Provider :: string
  ap_Config :: "(string \<times> string) list"

record Notifier =
  n_Name :: string
  n_Type :: string
  n_Config :: "(string \<times> string) list"
  n_Enabled :: "bool option"

record Config =
  cfg_Projects :: "Project list"
  cfg_AuthProfiles :: "AuthProfile list"
  cfg_Notifiers :: "Notifier list"

definition AWSAccessKeyID :: string where "AWSAccessKeyID = ''AWS_ACCESS_KEY_ID''"
definition AWSSecretAccessKey :: string where "AWSSecretAccessKey = ''AWS_SECRET_ACCESS_KEY''"
definition AWSSessionToken :: string where "AWSSessionToken = ''AWS_SESSION_TOKEN''"
definition AWSRegion :: string where "AWSRegion = ''AWS_DEFAULT_REGION''"
definition AzureClientID :: string where "AzureClientID = ''ARM_CLIENT_ID''"
definition AzureClientSecret :: string where "AzureClientSecret = ''ARM_CLIENT_SECRET''"
definition AzureSubscriptionID :: string where "AzureSubscriptionID = ''ARM_SUBSCRIPTION_ID''"
definition AzureTenantID :: string where "AzureTenantID = ''ARM_TENANT_ID''"
definition SlackWebhookURL :: string where "SlackWebhookURL = ''webhook_url''"

text \<open>
  Every Go \<^verbatim>\<open>error\<close> value of the modelled packages is a constructor; a wrapped error
  (\<^verbatim>\<open>%w\<close>) keeps the inner one as an argument. \<open>error option\<close> is Go's \<^verbatim>\<open>error\<close>
  with \<open>None\<close> for nil.
\<close>

datatype error =
    AuthProfileNotFound string
  | NotifierNotFound string
  | SlackWebhookNotConfigured string
  | UnknownNotifierType string string
  | WebhookURLEmpty
  | CreateRequestFailed
  | SendSlackFailed
  | SlackStatus int
  | FailedAfterRetries int "error option"
  | ProjectPathDoesNotExist string
  | BackendInitFailed string
  | ProviderInitFailed string
  | InitFailed string
  | TerraformInitFailed error
  | PlanExecuteFailed
  | PlanExitCode int string
  | TerraformPlanFailed error
  | TerraformNotInstalled
  | TerraformValidationFailed error
  | CompletedWithErrors

definition GetAuthProfile :: "Config \<Rightarrow> string \<Rightarrow> error + AuthProfile" where
  "GetAuthProfile c name =
     (case find (\<lambda>profile. ap_Name profile = name) (cfg_AuthProfiles c) of
        Some profile \<Rightarrow> Inr profile
      | None \<Rightarrow> Inl (AuthProfileNotFound name))"

definition GetNotifier :: "Config \<Rightarrow> string \<Rightarrow> error + Notifier" where
  "GetNotifier c name =
     (case find (\<lambda>notifier. n_Name notifier = name) (cfg_Notifiers c) of
        Some notifier \<Rightarrow> Inr notifier
      | None \<Rightarrow> Inl (NotifierNotFound name))"

section \<open>The process environment\<close>

text \<open>
  The environment is a map from variable names to values. \<^verbatim>\<open>os.Setenv\<close> refuses an
  empty name, a name holding \<^verbatim>\<open>=\<close> or NUL and a value holding NUL; the engine drops
  the error it returns, so such a call changes nothing.
\<close>

type_synonym environ = "string \<rightharpoonup> string"

definition Setenv :: "string \<Rightarrow> string \<Rightarrow> environ \<Rightarrow> environ" where
  "Setenv key val env =
     (if key = [] \<or> CHR ''='' \<in> set key \<or> CHR 0x00 \<in> set key \<or> CHR 0x00 \<in> set val
      then env else env(key \<mapsto> val))"

definition Unsetenv :: "string \<Rightarrow> environ \<Rightarrow> environ" where
  "Unsetenv key env = env(key := None)"

section \<open>Credential scope (internal/detector/engine.go)\<close>

definition aws_variable :: "string \<Rightarrow> string" where
  "aws_variable key =
     (if key = ''access_key_id'' then AWSAccessKeyID
      else if key = ''secret_access_key'' then AWSSecretAccessKey
      else if key = ''session_token'' then AWSSessionToken
      else if key = ''region'' then AWSRegion
      else key)"

definition azure_variable :: "string \<Rightarrow> string" where
  "azure_variable key =
     (if key = ''client_id'' then AzureClientID
      else if key = ''client_secret'' then AzureClientSecret
      else if key = ''subscription_id'' then AzureSubscriptionID
      else if key = ''tenant_id'' then AzureTenantID
      else key)"

definition setAuthEnvironment :: "Config \<Rightarrow> string \<Rightarrow> environ \<Rightarrow> error option \<times> environ" where
  "setAuthEnvironment cfg profileName env =
     (case GetAuthProfile cfg profileName of
        Inl err \<Rightarrow> (Some err, env)
      | Inr profile \<Rightarrow>
          if ap_Provider profile = ''aws'' then
            (None, fold (\<lambda>(key, val). Setenv (aws_variable key) val) (ap_Config profile) env)
          else if ap_Provider profile = ''azure'' then
            (None, fold (\<lambda>(key, val). Setenv (azure_variable key) val) (ap_Config profile) env)
          else if ap_Provider profile = ''gcp'' then
            (None, fold (\<lambda>(key, val). Setenv key val) (ap_Config profile) env)
          else
            (None, fold (\<lambda>(key, val). Setenv key val) (ap_Config profile) env))"

definition clearAuthEnvironment :: "environ \<Rightarrow> environ" where
  "clearAuthEnvironment env =
     (let env = Unsetenv AWSAccessKeyID env;
          env = Unsetenv AWSSecretAccessKey env;
          env = Unsetenv AWSSessionToken env;
          env = Unsetenv AWSRegion env;
          env = Unsetenv AzureClientID env;
          env = Unsetenv AzureClientSecret env;
          env = Unsetenv AzureSubscriptionID env;
          env = Unsetenv AzureTenantID env;
          env = Unsetenv ''GOOGLE_APPLICATION_CREDENTIALS'' env;
          env = Unsetenv ''GOOGLE_CLOUD_PROJECT'' env
      in env)"

text \<open>The ten names that \<open>clearAuthEnvironment\<close> unsets, as a list.\<close>

definition credential_variables :: "string list" where
  "credential_variables =
     [''AWS_ACCESS_KEY_ID'', ''AWS_SECRET_ACCESS_KEY'', ''AWS_SESSION_TOKEN'',
      ''AWS_DEFAULT_REGION'', ''ARM_CLIENT_ID'', ''ARM_CLIENT_SECRET'',
      ''ARM_SUBSCRIPTION_ID'', ''ARM_TENANT_ID'', ''GOOGLE_APPLICATION_CREDENTIALS'',
      ''GOOGLE_CLOUD_PROJECT'']"

text \<open>
  The variables that \<open>setAuthEnvironment\<close> writes for a profile name: for every key of
  the profile's config the name that the provider's lookup table gives it, and none when
  the profile does not exist. \<open>aws_keys\<close> and \<open>azure_keys\<close> are the keys that the lookup
  tables map.
\<close>

definition applied_variables :: "Config \<Rightarrow> string \<Rightarrow> string list" where
  "applied_variables cfg profileName =
     (case GetAuthProfile cfg profileName of
        Inl err \<Rightarrow> []
      | Inr profile \<Rightarrow>
          if ap_Provider profile = ''aws'' then map (\<lambda>(key, val). aws_variable key) (ap_Config profile)
          else if ap_Provider profile = ''azure''
          then map (\<lambda>(key, val). azure_variable key) (ap_Config profile)
          else map (\<lambda>(key, val). key) (ap_Config profile))"

definition aws_keys :: "string list" where
  "aws_keys = [''access_key_id'', ''secret_access_key'', ''session_token'', ''region'']"

definition azure_keys :: "string list" where
  "azure_keys = [''client_id'', ''client_secret'', ''subscription_id'', ''tenant_id'']"

definition mapped_profile :: "AuthProfile \<Rightarrow> bool" where
  "mapped_profile profile =
     ((ap_Provider profile = ''aws'' \<and> set (map fst (ap_Config profile)) \<subseteq> set aws_keys) \<or>
      (ap_Provider profile = ''azure'' \<and> set (map fst (ap_Config profile)) \<subseteq> set azure_keys))"

text \<open>The GCP profile of the repository's configuration guide.\<close>

definition gcp_guide_config :: Config where
  "gcp_guide_config =
     \<lparr>cfg_Projects = [],
      cfg_AuthProfiles =
        [\<lparr>ap_Name = ''gcp-prod'', ap_Provider = ''gcp'',
          ap_Config = [(''credentials_file'', ''/secrets/sa.json''), (''project_id'', ''acme-prod'')]\<rparr>],
      cfg_Notifiers = []\<rparr>"

section \<open>Strings\<close>

text \<open>
  A Go string is a sequence of bytes, here a \<open>char list\<close>. \<open>HasPrefix\<close>, \<open>Contains\<close>,
  \<open>Split_newline\<close> (\<^verbatim>\<open>strings.Split(s, "\n")\<close>) and \<open>Join_newline\<close> compare bytes, as
  Go does. \<open>TrimSpace\<close> strips the six ASCII white-space bytes; Go strips the
  white space of Unicode beyond ASCII as well, which no text evaluated below contains.
\<close>

definition HasPrefix :: "string \<Rightarrow> string \<Rightarrow> bool" where
  "HasPrefix s pre = prefix pre s"

fun Contains :: "string \<Rightarrow> string \<Rightarrow> bool" where
  "Contains [] substr = (substr = [])"
| "Contains (c # s) substr = (prefix substr (c # s) \<or> Contains s substr)"

definition is_space :: "char \<Rightarrow> bool" where
  "is_space c = (c = CHR '' '' \<or> c = CHR 0x09 \<or> c = CHR 0x0A \<or> c = CHR 0x0B \<or>
                 c = CHR 0x0C \<or> c = CHR 0x0D)"

definition TrimSpace :: "string \<Rightarrow> string" where
  "TrimSpace s = rev (dropWhile is_space (rev (dropWhile is_space s)))"

fun Split_newline :: "string \<Rightarrow> string list" where
  "Split_newline [] = [[]]"
| "Split_newline (c # s) =
     (if c = CHR 0x0A then [] # Split_newline s
      else (case Split_newline s of
              [] \<Rightarrow> [[c]]
            | line # lines \<Rightarrow> (c # line) # lines))"

fun Join_newline :: "string list \<Rightarrow> string" where
  "Join_newline [] = []"
| "Join_newline [x] = x"
| "Join_newline (x # y # ys) = x @ [CHR 0x0A] @ Join_newline (y # ys)"

section \<open>Plan summary (internal/terraform/executor.go)\<close>

text \<open>The separator of thirteen box-drawing characters U+2500, in UTF-8.\<close>

definition section_rule :: string where
  "section_rule = concat (replicate 13 [CHR 0xE2, CHR 0x94, CHR 0x80])"

text \<open>
  The loop of \<open>ExtractPlanSummary\<close>: \<open>n\<close> is \<^verbatim>\<open>len(lines)\<close>, \<open>i\<close> the index of the
  line at the head of the list, and the triple holds \<^verbatim>\<open>summary\<close>,
  \<^verbatim>\<open>resourceChanges\<close> and \<^verbatim>\<open>captureChanges\<close>.
\<close>

fun summary_loop ::
  "nat \<Rightarrow> nat \<Rightarrow> string list \<Rightarrow> string list \<times> string list \<times> bool
     \<Rightarrow> string list \<times> string list \<times> bool" where
  "summary_loop n i [] acc = acc"
| "summary_loop n i (line # rest) (summary, resourceChanges, captureChanges) =
     (let trimmedLine = TrimSpace line;
          summary =
            (if Contains line ''Plan:'' \<or> Contains line ''No changes'' \<or>
                Contains line ''to add'' \<or> Contains line ''to change'' \<or>
                Contains line ''to destroy''
             then summary @ [trimmedLine] else summary)
      in if Contains line ''Terraform will perform the following actions:''
         then summary_loop n (i + 1) rest (summary, resourceChanges, True)
         else
           let resourceChanges =
                 (if captureChanges \<and> length resourceChanges < 10 \<and>
                     (HasPrefix trimmedLine ''#'' \<or> HasPrefix trimmedLine ''~'' \<or>
                      HasPrefix trimmedLine ''+'' \<or> HasPrefix trimmedLine ''-'')
                  then resourceChanges @ [trimmedLine] else resourceChanges);
               resourceChanges =
                 (if Contains line ''will be'' \<and>
                     (Contains line ''created'' \<or> Contains line ''destroyed'' \<or>
                      Contains line ''updated'' \<or> Contains line ''replaced'') \<and>
                     length resourceChanges < 10
                  then resourceChanges @ [trimmedLine] else resourceChanges);
               captureChanges =
                 (if captureChanges \<and>
                     (Contains line section_rule \<or> int i > int n - 10)
                  then False else captureChanges)
           in summary_loop n (i + 1) rest (summary, resourceChanges, captureChanges))"

definition ExtractPlanSummary :: "string \<Rightarrow> string" where
  "ExtractPlanSummary planOutput =
     (let lines = Split_newline planOutput;
          (summary, resourceChanges, captureChanges) =
             summary_loop (length lines) 0 lines ([], [], False);
          result =
            (if length summary > 0 then Join_newline summary
             else ''Drift detected in Terraform configuration'');
          result =
            (if length resourceChanges > 0 then
               (let result = result @ [CHR 0x0A, CHR 0x0A] @ ''Resource Changes Detected:'';
                    result = result @ concat (map (\<lambda>change. [CHR 0x0A] @ ''  '' @ change) resourceChanges)
                in if length resourceChanges = 10
                   then result @ [CHR 0x0A] @ ''  ... (more changes, see full plan for details)''
                   else result)
             else result)
      in result)"

text \<open>
  A plan output with exactly ten resource-change entries and the tool's summary line.
\<close>

definition ten_changes_plan :: string where
  "ten_changes_plan =
     Join_newline
       [''r0 will be created'', ''r1 will be created'', ''r2 will be created'',
        ''r3 will be created'', ''r4 will be created'', ''r5 will be created'',
        ''r6 will be created'', ''r7 will be created'', ''r8 will be created'',
        ''r9 will be created'', ''Plan: 10 to add, 0 to change, 0 to destroy.'']"

section \<open>The outside world: processes, HTTP, the clock\<close>

text \<open>
  What the program does to the outside is a trace of events, oldest first: a child
  process started with its arguments, working directory and environment, an HTTP POST,
  a sleep (a \<^verbatim>\<open>time.Duration\<close>, a signed 64-bit count of nanoseconds), and the one log
  line a claim speaks of, the warning that drift went unnotified. Other log lines, the
  removal of Terraform's lock files in a project directory and the \<^verbatim>\<open>Timestamp\<close> of a
  Slack attachment change no returned value and are left out.

  What the outside answers is a \<open>world\<close>: the result of the \<open>n\<close>-th child process, whether
  a project path is missing when \<open>n\<close> processes have run, whether \<^verbatim>\<open>http.NewRequest\<close>
  rejects a URL, and the result of the \<open>n\<close>-th POST.
\<close>

record Field =
  f_Title :: string
  f_Value :: string
  f_Short :: bool

record Attachment =
  a_Color :: string
  a_Title :: string
  a_Text :: string
  a_Footer :: string
  a_FooterIcon :: string
  a_Fields :: "Field list"

record SlackMessage =
  m_Text :: string
  m_Username :: string
  m_IconEmoji :: string
  m_Attachments :: "Attachment list"

datatype event =
    Exec "string list" string environ
  | HttpPost string SlackMessage
  | Sleep "64 word"
  | WarnUnnotified string

datatype cmd_error = ExitError int | StartError

datatype http_result = TransportError | Status int

record world =
  exec_result :: "nat \<Rightarrow> string list \<Rightarrow> string \<Rightarrow> environ \<Rightarrow> string \<times> cmd_error option"
  path_missing :: "nat \<Rightarrow> string \<Rightarrow> bool"
  request_invalid :: "string \<Rightarrow> bool"
  http_do :: "nat \<Rightarrow> string \<Rightarrow> SlackMessage \<Rightarrow> http_result"

record state =
  env :: environ
  trace :: "event list"

fun is_Exec :: "event \<Rightarrow> bool" where
  "is_Exec (Exec args dir e) = True"
| "is_Exec ev = False"

fun is_HttpPost :: "event \<Rightarrow> bool" where
  "is_HttpPost (HttpPost url msg) = True"
| "is_HttpPost ev = False"

definition execs :: "event list \<Rightarrow> nat" where
  "execs tr = length (filter is_Exec tr)"

definition posts :: "event list \<Rightarrow> nat" where
  "posts tr = length (filter is_HttpPost tr)"

text \<open>\<^verbatim>\<open>cmd.Run()\<close> with the combined output of stdout and stderr.\<close>

definition run_command ::
  "world \<Rightarrow> string list \<Rightarrow> string \<Rightarrow> environ \<Rightarrow> state \<Rightarrow> (string \<times> cmd_error option) \<times> state" where
  "run_command w args dir e s =
     (exec_result w (execs (trace s)) args dir e, s\<lparr>trace := trace s @ [Exec args dir e]\<rparr>)"

section \<open>Terraform executor (internal/terraform/executor.go)\<close>

definition buildEnv :: "environ \<Rightarrow> environ" where
  "buildEnv e =
     (if e ''TF_IN_AUTOMATION'' = None \<or> e ''TF_IN_AUTOMATION'' = Some []
      then e(''TF_IN_AUTOMATION'' \<mapsto> ''true'') else e)"

definition init_args :: "string list" where
  "init_args = [''terraform'', ''init'', ''-input=false'', ''-no-color'', ''-upgrade=false'']"

definition plan_args :: "string list" where
  "plan_args = [''terraform'', ''plan'', ''-input=false'', ''-no-color'', ''-detailed-exitcode'']"

definition version_args :: "string list" where
  "version_args = [''terraform'', ''version'']"

definition runTerraformInit :: "world \<Rightarrow> string \<Rightarrow> state \<Rightarrow> (string \<times> error option) \<times> state" where
  "runTerraformInit w projectPath s =
     (case run_command w init_args projectPath (buildEnv (env s)) s of
        ((output, err), s') \<Rightarrow>
          (case err of
             Some e \<Rightarrow>
               if Contains output ''Error loading backend config'' \<or>
                  Contains output ''Backend initialization required'' \<or>
                  Contains output ''Error configuring the backend''
               then ((output, Some (BackendInitFailed output)), s')
               else if Contains output ''Could not load plugin'' \<or>
                       Contains output ''Provider produced inconsistent''
               then ((output, Some (ProviderInitFailed output)), s')
               else ((output, Some (InitFailed output)), s')
           | None \<Rightarrow> ((output, None), s')))"

definition runTerraformPlan ::
  "world \<Rightarrow> string \<Rightarrow> state \<Rightarrow> (string \<times> int \<times> error option) \<times> state" where
  "runTerraformPlan w projectPath s =
     (case run_command w plan_args projectPath (buildEnv (env s)) s of
        ((output, err), s') \<Rightarrow>
          (case err of
             Some StartError \<Rightarrow> ((output, 1, Some PlanExecuteFailed), s')
           | _ \<Rightarrow>
               (let exitCode = (case err of Some (ExitError c) \<Rightarrow> c | _ \<Rightarrow> 0)
                in if exitCode = 2 then ((output, exitCode, None), s')
                   else if exitCode \<noteq> 0
                   then ((output, exitCode, Some (PlanExitCode exitCode output)), s')
                   else ((output, exitCode, None), s'))))"

definition CheckDrift ::
  "world \<Rightarrow> string \<Rightarrow> state \<Rightarrow> (string \<times> int \<times> error option) \<times> state" where
  "CheckDrift w projectPath s =
     (if path_missing w (execs (trace s)) projectPath
      then (([], 1, Some (ProjectPathDoesNotExist projectPath)), s)
      else
        (case runTerraformInit w projectPath s of
           ((initOutput, Some err), s1) \<Rightarrow> ((initOutput, 1, Some (TerraformInitFailed err)), s1)
         | ((initOutput, None), s1) \<Rightarrow>
             (case runTerraformPlan w projectPath s1 of
                ((planOutput, exitCode, err), s2) \<Rightarrow>
                  (case err of
                     Some e \<Rightarrow>
                       if exitCode \<noteq> 2
                       then ((planOutput, exitCode, Some (TerraformPlanFailed e)), s2)
                       else ((planOutput, exitCode, None), s2)
                   | None \<Rightarrow> ((planOutput, exitCode, None), s2)))))"

definition ValidateTerraformInstallation :: "world \<Rightarrow> state \<Rightarrow> error option \<times> state" where
  "ValidateTerraformInstallation w s =
     (case run_command w version_args [] (env s) s of
        ((output, Some e), s') \<Rightarrow> (Some TerraformNotInstalled, s')
      | ((output, None), s') \<Rightarrow> (None, s'))"

section \<open>Slack notifier (internal/notifier/slack.go)\<close>

text \<open>
  The message that \<open>SendSlackRichNotification\<close> builds; \<^verbatim>\<open>planOutput\<close> is cut at 2000
  bytes. \<^verbatim>\<open>json.Marshal\<close> cannot fail on this struct, so that branch has no
  counterpart here.
\<close>

definition rich_message :: "string \<Rightarrow> string \<Rightarrow> string \<Rightarrow> SlackMessage" where
  "rich_message projectName driftSummary planOutput =
     (let planOutput =
            (if length planOutput > 2000
             then take 2000 planOutput @ [CHR 0x0A] @ ''... (truncated)''
             else planOutput)
      in \<lparr>m_Text = '':rotating_light: *Drift Detected in Project: '' @ projectName @ ''*'',
          m_Username = ''TerraDrift Watcher'',
          m_IconEmoji = '':warning:'',
          m_Attachments =
            [\<lparr>a_Color = ''danger'', a_Title = ''Configuration Drift Alert'',
              a_Text = driftSummary, a_Footer = ''TerraDrift Watcher'',
              a_FooterIcon = ''https://www.terraform.io/favicon.ico'',
              a_Fields =
                [\<lparr>f_Title = ''Project'', f_Value = projectName, f_Short = True\<rparr>,
                 \<lparr>f_Title = ''Status'', f_Value = ''Drift Detected'', f_Short = True\<rparr>]\<rparr>,
             \<lparr>a_Color = ''warning'', a_Title = ''Plan Output'',
              a_Text = ''```'' @ planOutput @ ''```'', a_Footer = [], a_FooterIcon = [],
              a_Fields = []\<rparr>]\<rparr>)"

text \<open>The error that the response to a POST stands for; only status 200 is a success.\<close>

definition response_error :: "http_result \<Rightarrow> error option" where
  "response_error r =
     (case r of
        TransportError \<Rightarrow> Some SendSlackFailed
      | Status code \<Rightarrow> if code \<noteq> 200 then Some (SlackStatus code) else None)"

definition SendSlackRichNotification ::
  "world \<Rightarrow> string \<Rightarrow> string \<Rightarrow> string \<Rightarrow> string \<Rightarrow> state \<Rightarrow> error option \<times> state" where
  "SendSlackRichNotification w webhookURL projectName driftSummary planOutput s =
     (if webhookURL = [] then (Some WebhookURLEmpty, s)
      else
        let slackMsg = rich_message projectName driftSummary planOutput
        in if request_invalid w webhookURL then (Some CreateRequestFailed, s)
           else (response_error (http_do w (posts (trace s)) webhookURL slackMsg),
                 s\<lparr>trace := trace s @ [HttpPost webhookURL slackMsg]\<rparr>))"

text \<open>
  \<^verbatim>\<open>time.Duration(1<<uint(attempt-1)) * time.Second\<close>: the shift and the product are
  taken in 64 bits and wrap around.
\<close>

definition backoff :: "int \<Rightarrow> 64 word" where
  "backoff attempt = push_bit (nat (attempt - 1)) 1 * 1000000000"

definition sleep :: "64 word \<Rightarrow> state \<Rightarrow> state" where
  "sleep d s = s\<lparr>trace := trace s @ [Sleep d]\<rparr>"

text \<open>
  The loop of \<open>SendSlackRichNotificationWithRetry\<close>, from the test \<^verbatim>\<open>attempt <= maxRetries\<close>
  on. \<open>attempt\<close> and \<open>maxRetries\<close> are Go \<^verbatim>\<open>int\<close>s; the model counts in \<open>int\<close>, which is
  what the 64-bit counter does for every \<open>maxRetries\<close> below \<open>2^63 - 1\<close>.
\<close>

function retry_loop ::
  "world \<Rightarrow> string \<Rightarrow> string \<Rightarrow> string \<Rightarrow> string \<Rightarrow> int \<Rightarrow> int \<Rightarrow> error option \<Rightarrow> state
     \<Rightarrow> error option \<times> state" where
  "retry_loop w webhookURL projectName driftSummary planOutput maxRetries attempt lastErr s =
     (if attempt \<le> maxRetries then
        (let s1 = (if attempt > 0 then sleep (backoff attempt) s else s)
         in case SendSlackRichNotification w webhookURL projectName driftSummary planOutput s1 of
              (None, s2) \<Rightarrow> (None, s2)
            | (Some err, s2) \<Rightarrow>
                retry_loop w webhookURL projectName driftSummary planOutput maxRetries
                  (attempt + 1) (Some err) s2)
      else (Some (FailedAfterRetries (maxRetries + 1) lastErr), s))"
  by pat_completeness auto
termination
  by (relation "measure (\<lambda>(w, u, p, d, po, maxRetries, attempt, l, s). nat (maxRetries + 1 - attempt))")
     auto

definition SendSlackRichNotificationWithRetry ::
  "world \<Rightarrow> string \<Rightarrow> string \<Rightarrow> string \<Rightarrow> string \<Rightarrow> int \<Rightarrow> state \<Rightarrow> error option \<times> state" where
  "SendSlackRichNotificationWithRetry w webhookURL projectName driftSummary planOutput maxRetries s =
     retry_loop w webhookURL projectName driftSummary planOutput maxRetries 0 None s"

text \<open>
  The events of a delivery whose attempts \<open>0, \<dots>, k\<close> each made one POST: the first POST,
  then for every retry \<open>i\<close> the wait \<open>backoff i\<close> and the POST.
\<close>

definition delivery_schedule :: "string \<Rightarrow> SlackMessage \<Rightarrow> nat \<Rightarrow> event list" where
  "delivery_schedule url msg k =
     HttpPost url msg # concat (map (\<lambda>i. [Sleep (backoff (int i)), HttpPost url msg]) [1..<Suc k])"

section \<open>Engine (internal/detector/engine.go)\<close>

definition sendNotification ::
  "world \<Rightarrow> Config \<Rightarrow> string \<Rightarrow> string \<Rightarrow> string \<Rightarrow> string \<Rightarrow> state \<Rightarrow> error option \<times> state" where
  "sendNotification w cfg notifierName projectName summary planOutput s =
     (case GetNotifier cfg notifierName of
        Inl err \<Rightarrow> (Some err, s)
      | Inr notifierCfg \<Rightarrow>
          if n_Enabled notifierCfg = Some False then (None, s)
          else if n_Type notifierCfg = ''slack'' then
            (case map_of (n_Config notifierCfg) SlackWebhookURL of
               None \<Rightarrow> (Some (SlackWebhookNotConfigured notifierName), s)
             | Some webhookURL \<Rightarrow>
                 SendSlackRichNotificationWithRetry w webhookURL projectName summary planOutput 3 s)
          else if n_Type notifierCfg = ''teams'' then (None, s)
          else if n_Type notifierCfg = ''email'' then (None, s)
          else (Some (UnknownNotifierType (n_Type notifierCfg) notifierName), s))"

text \<open>
  The variables of \<open>RunWithResult\<close> that live across the project loop: the process state,
  \<^verbatim>\<open>hasErrors\<close>, \<^verbatim>\<open>driftFound\<close>, and the number of \<^verbatim>\<open>defer clearAuthEnvironment()\<close>
  statements executed so far, which Go runs when \<open>RunWithResult\<close> returns.
\<close>

record run_vars =
  proc :: state
  hasErrors :: bool
  driftFound :: bool
  deferred :: nat

text \<open>
  The loop over \<^verbatim>\<open>project.Notifiers\<close>; the triple holds \<^verbatim>\<open>notificationsSent\<close>,
  \<^verbatim>\<open>hasErrors\<close> and the process state.
\<close>

fun notify_all ::
  "world \<Rightarrow> Config \<Rightarrow> string \<Rightarrow> string \<Rightarrow> string \<Rightarrow> string list \<Rightarrow> nat \<times> bool \<times> state
     \<Rightarrow> nat \<times> bool \<times> state" where
  "notify_all w cfg projectName summary planOutput [] acc = acc"
| "notify_all w cfg projectName summary planOutput (notifierName # rest)
       (notificationsSent, hasErrs, s) =
     (case sendNotification w cfg notifierName projectName summary planOutput s of
        (Some err, s') \<Rightarrow>
          notify_all w cfg projectName summary planOutput rest (notificationsSent, True, s')
      | (None, s') \<Rightarrow>
          notify_all w cfg projectName summary planOutput rest (notificationsSent + 1, hasErrs, s'))"

text \<open>The body of the project loop. The console output of the drift branch is not modelled.\<close>

definition process_project :: "world \<Rightarrow> Config \<Rightarrow> Project \<Rightarrow> run_vars \<Rightarrow> run_vars" where
  "process_project w cfg project v =
     (if p_Enabled project = Some False then v
      else
        let applied =
              (if p_AuthProfile project \<noteq> [] then
                 (case setAuthEnvironment cfg (p_AuthProfile project) (env (proc v)) of
                    (Some err, e) \<Rightarrow> Inl (v\<lparr>proc := (proc v)\<lparr>env := e\<rparr>, hasErrors := True\<rparr>)
                  | (None, e) \<Rightarrow>
                      Inr (v\<lparr>proc := (proc v)\<lparr>env := e\<rparr>, deferred := deferred v + 1\<rparr>))
               else Inr v)
        in case applied of
             Inl v' \<Rightarrow> v'
           | Inr v1 \<Rightarrow>
               (case CheckDrift w (p_Path project) (proc v1) of
                  ((planOutput, exitCode, err), s2) \<Rightarrow>
                    if exitCode = 0 then v1\<lparr>proc := s2\<rparr>
                    else if exitCode = 2 then
                      (let summary = ExtractPlanSummary planOutput
                       in case notify_all w cfg (p_Name project) summary planOutput
                                 (p_Notifiers project) (0, hasErrors v1, s2) of
                            (notificationsSent, hasErrs, s3) \<Rightarrow>
                              v1\<lparr>proc :=
                                    (if notificationsSent = 0 \<and> length (p_Notifiers project) > 0
                                     then s3\<lparr>trace := trace s3 @ [WarnUnnotified (p_Name project)]\<rparr>
                                     else s3),
                                 hasErrors := hasErrs, driftFound := True\<rparr>)
                    else v1\<lparr>proc := s2, hasErrors := True\<rparr>))"

text \<open>
  \<open>RunWithResult\<close>. The goroutine that waits for a signal belongs to no sequential run
  and is not modelled. On return the deferred calls run, one \<open>clearAuthEnvironment\<close> for
  each \<^verbatim>\<open>defer\<close> statement that the loop executed.
\<close>

definition RunWithResult :: "world \<Rightarrow> Config \<Rightarrow> state \<Rightarrow> (bool \<times> error option) \<times> state" where
  "RunWithResult w cfg s =
     (case ValidateTerraformInstallation w s of
        (Some err, s') \<Rightarrow> ((False, Some (TerraformValidationFailed err)), s')
      | (None, s') \<Rightarrow>
          (let v = fold (process_project w cfg) (cfg_Projects cfg)
                     \<lparr>proc = s', hasErrors = False, driftFound = False, deferred = 0\<rparr>;
               s'' = (proc v)\<lparr>env := (clearAuthEnvironment ^^ deferred v) (env (proc v))\<rparr>
           in ((driftFound v, if hasErrors v then Some CompletedWithErrors else None), s'')))"

text \<open>The process state in which each project of the list is reached.\<close>

fun states_before :: "world \<Rightarrow> Config \<Rightarrow> Project list \<Rightarrow> run_vars \<Rightarrow> run_vars list" where
  "states_before w cfg [] v = []"
| "states_before w cfg (project # rest) v =
     v # states_before w cfg rest (process_project w cfg project v)"

text \<open>
  A project, reached with the variables \<open>v\<close>, produces an error: it is not disabled, and
  its credential profile cannot be applied, or the comparator returns a code other than
  0 and 2 (a missing path, a failed init, a failed plan), or it returns 2 and the
  dispatch to one of the project's channels returns an error. It drifts when the
  comparator is reached and returns 2.
\<close>

definition credentials_fail :: "Config \<Rightarrow> Project \<Rightarrow> run_vars \<Rightarrow> bool" where
  "credentials_fail cfg project v =
     (p_AuthProfile project \<noteq> [] \<and>
      fst (setAuthEnvironment cfg (p_AuthProfile project) (env (proc v))) \<noteq> None)"

definition state_at_compare :: "Config \<Rightarrow> Project \<Rightarrow> run_vars \<Rightarrow> state" where
  "state_at_compare cfg project v =
     (if p_AuthProfile project \<noteq> []
      then (proc v)\<lparr>env := snd (setAuthEnvironment cfg (p_AuthProfile project) (env (proc v)))\<rparr>
      else proc v)"

definition project_fails :: "world \<Rightarrow> Config \<Rightarrow> Project \<Rightarrow> run_vars \<Rightarrow> bool" where
  "project_fails w cfg project v =
     (p_Enabled project \<noteq> Some False \<and>
      (credentials_fail cfg project v \<or>
       (case CheckDrift w (p_Path project) (state_at_compare cfg project v) of
          ((planOutput, exitCode, err), s2) \<Rightarrow>
            (exitCode \<noteq> 0 \<and> exitCode \<noteq> 2) \<or>
            (exitCode = 2 \<and>
             fst (snd (notify_all w cfg (p_Name project) (ExtractPlanSummary planOutput)
                         planOutput (p_Notifiers project) (0, False, s2)))))))"

definition project_drifts :: "world \<Rightarrow> Config \<Rightarrow> Project \<Rightarrow> run_vars \<Rightarrow> bool" where
  "project_drifts w cfg project v =
     (p_Enabled project \<noteq> Some False \<and> \<not> credentials_fail cfg project v \<and>
      fst (snd (fst (CheckDrift w (p_Path project) (state_at_compare cfg project v)))) = 2)"

section \<open>Run lock (internal/lock/filelock.go)\<close>

text \<open>
  The lock file system: a map from paths to files with their modification time (in
  nanoseconds) and content. The \<open>lock_world\<close> gives the clock, the process id, and whether
  the operating system refuses the removal of the marker or fails its creation for a
  reason other than its existence. \<^verbatim>\<open>os.Stat\<close> succeeds exactly on an existing file.
\<close>

record file_info =
  modTime :: int
  content :: string

type_synonym files = "string \<rightharpoonup> file_info"

record lock_world =
  now :: int
  pid_text :: string
  now_text :: string
  remove_refused :: bool
  create_fails :: bool

record FileLock =
  lockPath :: string
  lockFile :: "string option"

datatype lock_error = AlreadyRunning string | CreateLockFailed | RemoveLockFailed

definition Hour :: int where
  "Hour = 3600 * 1000000000"

definition os_Remove :: "lock_world \<Rightarrow> string \<Rightarrow> files \<Rightarrow> files" where
  "os_Remove lw path fs = (if remove_refused lw then fs else fs(path := None))"

datatype open_error = EEXIST | EOTHER

definition OpenFile_excl :: "lock_world \<Rightarrow> string \<Rightarrow> files \<Rightarrow> open_error + files" where
  "OpenFile_excl lw path fs =
     (if fs path \<noteq> None then Inl EEXIST
      else if create_fails lw then Inl EOTHER
      else Inr (fs(path \<mapsto> \<lparr>modTime = now lw, content = []\<rparr>)))"

definition Acquire :: "lock_world \<Rightarrow> FileLock \<Rightarrow> files \<Rightarrow> lock_error option \<times> FileLock \<times> files" where
  "Acquire lw fl fs =
     (let checked =
            (case fs (lockPath fl) of
               Some info \<Rightarrow>
                 if now lw - modTime info > Hour
                 then Inr (os_Remove lw (lockPath fl) fs)
                 else Inl (AlreadyRunning (lockPath fl))
             | None \<Rightarrow> Inr fs)
      in case checked of
           Inl e \<Rightarrow> (Some e, fl, fs)
         | Inr fs1 \<Rightarrow>
             (case OpenFile_excl lw (lockPath fl) fs1 of
                Inl EEXIST \<Rightarrow> (Some (AlreadyRunning (lockPath fl)), fl, fs1)
              | Inl EOTHER \<Rightarrow> (Some CreateLockFailed, fl, fs1)
              | Inr fs2 \<Rightarrow>
                  (let lockInfo = ''PID: '' @ pid_text lw @ [CHR 0x0A] @
                                  ''Time: '' @ now_text lw @ [CHR 0x0A]
                   in (None, fl\<lparr>lockFile := Some (lockPath fl)\<rparr>,
                       fs2(lockPath fl \<mapsto> \<lparr>modTime = now lw, content = lockInfo\<rparr>)))))"

section \<open>Concrete inputs\<close>

text \<open>
  A process that starts with an empty environment, and a world in which every path
  exists, \<^verbatim>\<open>terraform plan\<close> exits with a given code, every URL is well formed and every
  POST is answered with a given status.
\<close>

definition start :: state where
  "start = \<lparr>env = Map.empty, trace = []\<rparr>"

definition steady_world :: "int \<Rightarrow> int \<Rightarrow> world" where
  "steady_world exitCode status =
     \<lparr>exec_result =
        (\<lambda>n args dir e.
           if args = plan_args
           then (''drift'', if exitCode = 0 then None else Some (ExitError exitCode))
           else ([], None)),
      path_missing = (\<lambda>n path. False),
      request_invalid = (\<lambda>url. False),
      http_do = (\<lambda>n url msg. Status status)\<rparr>"

text \<open>A world whose first POST is answered with status 500 and every later one with 200.\<close>

definition flaky_world :: world where
  "flaky_world =
     \<lparr>exec_result = (\<lambda>n args dir e. ([], None)),
      path_missing = (\<lambda>n path. False),
      request_invalid = (\<lambda>url. False),
      http_do = (\<lambda>n url msg. if n = 0 then Status 500 else Status 200)\<rparr>"

text \<open>A world in which the \<^verbatim>\<open>terraform\<close> executable cannot be started.\<close>

definition no_terraform_world :: world where
  "no_terraform_world =
     \<lparr>exec_result = (\<lambda>n args dir e. ([], Some StartError)),
      path_missing = (\<lambda>n path. False),
      request_invalid = (\<lambda>url. False),
      http_do = (\<lambda>n url msg. Status 200)\<rparr>"

definition hook :: string where
  "hook = ''https://hooks.slack.example/T000''"

text \<open>Two enabled projects, the first with an AWS profile, the second with an Azure one.\<close>

definition two_cloud_config :: Config where
  "two_cloud_config =
     \<lparr>cfg_Projects =
        [\<lparr>p_Name = ''aws-infrastructure'', p_Path = ''/srv/aws'', p_AuthProfile = ''aws-prod'',
          p_Notifiers = [], p_Enabled = Some True\<rparr>,
         \<lparr>p_Name = ''azure-resources'', p_Path = ''/srv/azure'', p_AuthProfile = ''azure-prod'',
          p_Notifiers = [], p_Enabled = Some True\<rparr>],
      cfg_AuthProfiles =
        [\<lparr>ap_Name = ''aws-prod'', ap_Provider = ''aws'',
          ap_Config = [(''access_key_id'', ''AKIAEXAMPLE''), (''secret_access_key'', ''s3cr3t'')]\<rparr>,
         \<lparr>ap_Name = ''azure-prod'', ap_Provider = ''azure'',
          ap_Config = [(''client_id'', ''app-1''), (''client_secret'', ''pw'')]\<rparr>],
      cfg_Notifiers = []\<rparr>"

text \<open>
  For every child process of a trace, its working directory and the value that a
  variable has in the environment handed to it.
\<close>

fun exec_view :: "string \<Rightarrow> event \<Rightarrow> string \<times> string option" where
  "exec_view var (Exec args dir e) = (dir, e var)"
| "exec_view var ev = ([], None)"

definition seen_by_processes :: "string \<Rightarrow> event list \<Rightarrow> (string \<times> string option) list" where
  "seen_by_processes var tr = map (exec_view var) (filter is_Exec tr)"

text \<open>The number of unnotified-drift warnings of a trace.\<close>

fun is_WarnUnnotified :: "event \<Rightarrow> bool" where
  "is_WarnUnnotified (WarnUnnotified projectName) = True"
| "is_WarnUnnotified ev = False"

definition warnings :: "event list \<Rightarrow> nat" where
  "warnings tr = length (filter is_WarnUnnotified tr)"

text \<open>
  A configuration with a project whose credential profile does not exist, a disabled
  project, and a project that notifies a Teams and an e-mail channel; a muted and a
  live Slack channel are configured as well. \<open>alert_project\<close> notifies the Teams channel
  and the live Slack channel.
\<close>

definition ghost_project :: Project where
  "ghost_project =
     \<lparr>p_Name = ''ghost'', p_Path = ''/srv/ghost'', p_AuthProfile = ''missing'',
      p_Notifiers = [], p_Enabled = Some True\<rparr>"

definition paused_project :: Project where
  "paused_project =
     \<lparr>p_Name = ''paused'', p_Path = ''/srv/paused'', p_AuthProfile = [],
      p_Notifiers = [''slack-muted''], p_Enabled = Some False\<rparr>"

definition app_project :: Project where
  "app_project =
     \<lparr>p_Name = ''app'', p_Path = ''/srv/app'', p_AuthProfile = [],
      p_Notifiers = [''teams-alerts'', ''email-ops''], p_Enabled = None\<rparr>"

definition alert_project :: Project where
  "alert_project =
     \<lparr>p_Name = ''app'', p_Path = ''/srv/app'', p_AuthProfile = [],
      p_Notifiers = [''teams-alerts'', ''slack-ops''], p_Enabled = Some True\<rparr>"

definition mixed_config :: Config where
  "mixed_config =
     \<lparr>cfg_Projects = [ghost_project, app_project],
      cfg_AuthProfiles = [],
      cfg_Notifiers =
        [\<lparr>n_Name = ''teams-alerts'', n_Type = ''teams'',
          n_Config = [(''webhook_url'', ''https://outlook.office.example/hook'')], n_Enabled = None\<rparr>,
         \<lparr>n_Name = ''email-ops'', n_Type = ''email'',
          n_Config = [(''smtp_host'', ''smtp.example'')], n_Enabled = Some True\<rparr>,
         \<lparr>n_Name = ''slack-muted'', n_Type = ''slack'',
          n_Config = [(''webhook_url'', ''https://hooks.slack.example/T000'')],
          n_Enabled = Some False\<rparr>,
         \<lparr>n_Name = ''slack-ops'', n_Type = ''slack'',
          n_Config = [(''webhook_url'', ''https://hooks.slack.example/T000'')],
          n_Enabled = Some True\<rparr>]\<rparr>"

text \<open>
  A notifier name stands for an unimplemented kind when it resolves to a notifier that is
  not disabled and whose type is \<open>teams\<close> or \<open>email\<close>.
\<close>

definition unimplemented_kind :: "Config \<Rightarrow> string \<Rightarrow> bool" where
  "unimplemented_kind cfg notifierName =
     (case GetNotifier cfg notifierName of
        Inl err \<Rightarrow> False
      | Inr notifierCfg \<Rightarrow>
          n_Enabled notifierCfg \<noteq> Some False \<and>
          (n_Type notifierCfg = ''teams'' \<or> n_Type notifierCfg = ''email''))"

text \<open>
  A lock whose marker was written at time 0, two hours before now, or exactly one hour
  before now.
\<close>

definition the_lock :: FileLock where
  "the_lock = \<lparr>lockPath = ''/tmp/terradrift-watcher.lock'', lockFile = None\<rparr>"

definition old_marker :: files where
  "old_marker =
     Map.empty(''/tmp/terradrift-watcher.lock'' \<mapsto> \<lparr>modTime = 0, content = ''PID: 4711''\<rparr>)"

definition lock_world_at :: "int \<Rightarrow> bool \<Rightarrow> lock_world" where
  "lock_world_at t refused =
     \<lparr>now = t, pid_text = ''4712'', now_text = ''2024-01-15T12:00:00Z'',
      remove_refused = refused, create_fails = False\<rparr>"

section \<open>Credential clearing\<close>

lemmas config_consts =
  AWSAccessKeyID_def AWSSecretAccessKey_def AWSSessionToken_def AWSRegion_def
  AzureClientID_def AzureClientSecret_def AzureSubscriptionID_def AzureTenantID_def
  SlackWebhookURL_def

lemma fold_Unsetenv_apply:
  "fold Unsetenv ks e k = (if k \<in> set ks then None else e k)"
  by (induction ks arbitrary: e) (simp_all add: Unsetenv_def)

lemma clearAuthEnvironment_fold:
  "clearAuthEnvironment e = fold Unsetenv credential_variables e"
  by (simp add: clearAuthEnvironment_def credential_variables_def config_consts)

lemma clearAuthEnvironment_apply:
  "clearAuthEnvironment e k = (if k \<in> set credential_variables then None else e k)"
  by (simp only: clearAuthEnvironment_fold fold_Unsetenv_apply)

lemma gcp_guide_env:
  "snd (setAuthEnvironment gcp_guide_config ''gcp-prod'' e) =
     e(''credentials_file'' \<mapsto> ''/secrets/sa.json'', ''project_id'' \<mapsto> ''acme-prod'')"
  by (simp add: setAuthEnvironment_def GetAuthProfile_def gcp_guide_config_def Setenv_def)

lemma Setenv_other: "k \<noteq> key \<Longrightarrow> Setenv key val e k = e k"
  by (simp add: Setenv_def)

lemma fold_Setenv_other:
  "k \<notin> set (map (\<lambda>(key, val). f key) xs) \<Longrightarrow>
   fold (\<lambda>(key, val). Setenv (f key) val) xs e k = e k"
  by (induction xs arbitrary: e) (auto simp: Setenv_other)

lemma setAuthEnvironment_other:
  "k \<notin> set (applied_variables cfg name) \<Longrightarrow> snd (setAuthEnvironment cfg name e) k = e k"
  using fold_Setenv_other [of k aws_variable] fold_Setenv_other [of k azure_variable]
    fold_Setenv_other [of k "\<lambda>key. key"]
  by (auto simp: setAuthEnvironment_def applied_variables_def split: sum.splits)

lemma aws_variable_mapped: "key \<in> set aws_keys \<Longrightarrow> aws_variable key \<in> set credential_variables"
  by (auto simp: aws_keys_def aws_variable_def credential_variables_def config_consts)

lemma azure_variable_mapped:
  "key \<in> set azure_keys \<Longrightarrow> azure_variable key \<in> set credential_variables"
  by (auto simp: azure_keys_def azure_variable_def credential_variables_def config_consts)

lemma mapped_profile_applied:
  assumes "GetAuthProfile cfg name = Inr profile" and "mapped_profile profile"
  shows "set (applied_variables cfg name) \<subseteq> set credential_variables"
  using assms
  by (auto simp: applied_variables_def mapped_profile_def
      dest!: aws_variable_mapped azure_variable_mapped
      intro: aws_variable_mapped azure_variable_mapped)

lemma aws_prod_profile:
  "GetAuthProfile two_cloud_config ''aws-prod'' =
     Inr \<lparr>ap_Name = ''aws-prod'', ap_Provider = ''aws'',
          ap_Config = [(''access_key_id'', ''AKIAEXAMPLE''), (''secret_access_key'', ''s3cr3t'')]\<rparr>"
  by (simp add: GetAuthProfile_def two_cloud_config_def)

text \<open>
  Claim C2, as amended. \<open>setAuthEnvironment\<close> changes no variable outside
  \<open>applied_variables\<close>. For a profile of provider \<open>aws\<close> or \<open>azure\<close> whose keys are all
  keys of the provider's lookup table, every variable it writes is one of the ten fixed
  credential variables, none of them is set after one \<open>clearAuthEnvironment\<close>, and the
  environment is the one that \<open>clearAuthEnvironment\<close> alone would have left. For every
  profile name and every environment, also when the profile does not exist: a variable on
  which applying and clearing differs from clearing alone is one that
  \<open>setAuthEnvironment\<close> wrote under a name outside the fixed list; none of the ten fixed
  variables is set after \<open>clearAuthEnvironment\<close>; and a second \<open>clearAuthEnvironment\<close>
  changes nothing.
\<close>

theorem clear_after_apply:
  "(\<forall>k. k \<notin> set (applied_variables cfg name) \<longrightarrow>
        snd (setAuthEnvironment cfg name e) k = e k) \<and>
   (\<forall>profile. GetAuthProfile cfg name = Inr profile \<and> mapped_profile profile \<longrightarrow>
      set (applied_variables cfg name) \<subseteq> set credential_variables \<and>
      (\<forall>k \<in> set (applied_variables cfg name).
         clearAuthEnvironment (snd (setAuthEnvironment cfg name e)) k = None) \<and>
      clearAuthEnvironment (snd (setAuthEnvironment cfg name e)) = clearAuthEnvironment e) \<and>
   (\<forall>k. clearAuthEnvironment (snd (setAuthEnvironment cfg name e)) k \<noteq> clearAuthEnvironment e k \<longrightarrow>
        k \<in> set (applied_variables cfg name) \<and> k \<notin> set credential_variables) \<and>
   (\<forall>k \<in> set credential_variables.
      clearAuthEnvironment (snd (setAuthEnvironment cfg name e)) k = None) \<and>
   clearAuthEnvironment (clearAuthEnvironment (snd (setAuthEnvironment cfg name e))) =
     clearAuthEnvironment (snd (setAuthEnvironment cfg name e))"
proof -
  have frame: "\<forall>k. k \<notin> set (applied_variables cfg name) \<longrightarrow>
        snd (setAuthEnvironment cfg name e) k = e k"
    by (simp add: setAuthEnvironment_other)
  have fixed: "\<forall>k \<in> set credential_variables.
      clearAuthEnvironment (snd (setAuthEnvironment cfg name e)) k = None"
    by (simp add: clearAuthEnvironment_apply)
  have residue: "\<forall>k. clearAuthEnvironment (snd (setAuthEnvironment cfg name e)) k \<noteq>
        clearAuthEnvironment e k \<longrightarrow>
        k \<in> set (applied_variables cfg name) \<and> k \<notin> set credential_variables"
  proof (intro allI impI)
    fix k
    assume d: "clearAuthEnvironment (snd (setAuthEnvironment cfg name e)) k \<noteq> clearAuthEnvironment e k"
    then have n: "k \<notin> set credential_variables"
      by (auto simp: clearAuthEnvironment_apply)
    with d have "snd (setAuthEnvironment cfg name e) k \<noteq> e k"
      by (simp add: clearAuthEnvironment_apply)
    with frame have "k \<in> set (applied_variables cfg name)"
      by blast
    with n show "k \<in> set (applied_variables cfg name) \<and> k \<notin> set credential_variables"
      by simp
  qed
  have mapped: "\<forall>profile. GetAuthProfile cfg name = Inr profile \<and> mapped_profile profile \<longrightarrow>
      set (applied_variables cfg name) \<subseteq> set credential_variables \<and>
      (\<forall>k \<in> set (applied_variables cfg name).
         clearAuthEnvironment (snd (setAuthEnvironment cfg name e)) k = None) \<and>
      clearAuthEnvironment (snd (setAuthEnvironment cfg name e)) = clearAuthEnvironment e"
  proof (intro allI impI)
    fix profile
    assume "GetAuthProfile cfg name = Inr profile \<and> mapped_profile profile"
    then have s: "set (applied_variables cfg name) \<subseteq> set credential_variables"
      using mapped_profile_applied by blast
    with fixed have c: "\<forall>k \<in> set (applied_variables cfg name).
         clearAuthEnvironment (snd (setAuthEnvironment cfg name e)) k = None"
      by blast
    have q: "clearAuthEnvironment (snd (setAuthEnvironment cfg name e)) = clearAuthEnvironment e"
    proof
      fix k
      from residue s
      show "clearAuthEnvironment (snd (setAuthEnvironment cfg name e)) k = clearAuthEnvironment e k"
        by blast
    qed
    from s c q
    show "set (applied_variables cfg name) \<subseteq> set credential_variables \<and>
      (\<forall>k \<in> set (applied_variables cfg name).
         clearAuthEnvironment (snd (setAuthEnvironment cfg name e)) k = None) \<and>
      clearAuthEnvironment (snd (setAuthEnvironment cfg name e)) = clearAuthEnvironment e"
      by simp
  qed
  have idem: "clearAuthEnvironment (clearAuthEnvironment (snd (setAuthEnvironment cfg name e))) =
     clearAuthEnvironment (snd (setAuthEnvironment cfg name e))"
    by (simp add: clearAuthEnvironment_apply fun_eq_iff)
  from frame mapped residue fixed idem show ?thesis
    by (intro conjI)
qed

text \<open>
  Witness of C2: the AWS profile of \<open>two_cloud_config\<close> applied to the empty environment
  sets \<open>AWS_SECRET_ACCESS_KEY\<close>, and \<open>clearAuthEnvironment\<close> removes it; for the guide's GCP
  profile the variable on which applying and clearing differs from clearing alone is
  \<open>credentials_file\<close>.
\<close>

theorem clear_after_apply_witness:
  "GetAuthProfile two_cloud_config ''aws-prod'' =
     Inr \<lparr>ap_Name = ''aws-prod'', ap_Provider = ''aws'',
          ap_Config = [(''access_key_id'', ''AKIAEXAMPLE''), (''secret_access_key'', ''s3cr3t'')]\<rparr> \<and>
   mapped_profile \<lparr>ap_Name = ''aws-prod'', ap_Provider = ''aws'',
          ap_Config = [(''access_key_id'', ''AKIAEXAMPLE''), (''secret_access_key'', ''s3cr3t'')]\<rparr> \<and>
   set (applied_variables two_cloud_config ''aws-prod'') \<subseteq> set credential_variables \<and>
   snd (setAuthEnvironment two_cloud_config ''aws-prod'' Map.empty) ''AWS_SECRET_ACCESS_KEY''
     = Some ''s3cr3t'' \<and>
   ''AWS_SECRET_ACCESS_KEY'' \<in> set credential_variables \<and>
   clearAuthEnvironment (snd (setAuthEnvironment two_cloud_config ''aws-prod'' Map.empty))
     ''AWS_SECRET_ACCESS_KEY'' = None \<and>
   clearAuthEnvironment (snd (setAuthEnvironment two_cloud_config ''aws-prod'' Map.empty)) =
     clearAuthEnvironment Map.empty \<and>
   clearAuthEnvironment (snd (setAuthEnvironment gcp_guide_config ''gcp-prod'' Map.empty))
     ''credentials_file'' \<noteq> clearAuthEnvironment Map.empty ''credentials_file'' \<and>
   ''credentials_file'' \<in> set (applied_variables gcp_guide_config ''gcp-prod'') \<and>
   ''credentials_file'' \<notin> set credential_variables"
proof -
  note t = clear_after_apply [of two_cloud_config "''aws-prod''" Map.empty]
  note g = clear_after_apply [of gcp_guide_config "''gcp-prod''" Map.empty]
  have m: "mapped_profile \<lparr>ap_Name = ''aws-prod'', ap_Provider = ''aws'',
          ap_Config = [(''access_key_id'', ''AKIAEXAMPLE''), (''secret_access_key'', ''s3cr3t'')]\<rparr>"
    by (simp add: mapped_profile_def aws_keys_def)
  from t aws_prod_profile m have
    s: "set (applied_variables two_cloud_config ''aws-prod'') \<subseteq> set credential_variables"
    and c: "clearAuthEnvironment (snd (setAuthEnvironment two_cloud_config ''aws-prod'' Map.empty)) =
     clearAuthEnvironment Map.empty"
    by blast+
  have v: "snd (setAuthEnvironment two_cloud_config ''aws-prod'' Map.empty) ''AWS_SECRET_ACCESS_KEY''
     = Some ''s3cr3t''"
    by (simp add: setAuthEnvironment_def aws_prod_profile Setenv_def aws_variable_def config_consts)
  have i: "''AWS_SECRET_ACCESS_KEY'' \<in> set credential_variables"
    by (simp add: credential_variables_def)
  with t have n: "clearAuthEnvironment (snd (setAuthEnvironment two_cloud_config ''aws-prod'' Map.empty))
     ''AWS_SECRET_ACCESS_KEY'' = None"
    by blast
  have d: "clearAuthEnvironment (snd (setAuthEnvironment gcp_guide_config ''gcp-prod'' Map.empty))
     ''credentials_file'' \<noteq> clearAuthEnvironment Map.empty ''credentials_file''"
    by (simp add: clearAuthEnvironment_apply credential_variables_def gcp_guide_env)
  with g have k: "''credentials_file'' \<in> set (applied_variables gcp_guide_config ''gcp-prod'') \<and>
      ''credentials_file'' \<notin> set credential_variables"
    by blast
  from aws_prod_profile m s v i n c d k show ?thesis by (simp only: simp_thms)
qed

text \<open>
  Claim C2, as stated, fails: applying the guide's GCP profile to the empty environment
  sets \<open>credentials_file\<close>, and the variable is still set after \<open>clearAuthEnvironment\<close>.
\<close>

theorem clearAuthEnvironment_leaves_verbatim_key:
  "Map.empty ''credentials_file'' = (None :: string option) \<and>
   snd (setAuthEnvironment gcp_guide_config ''gcp-prod'' Map.empty) ''credentials_file''
     = Some ''/secrets/sa.json'' \<and>
   clearAuthEnvironment (snd (setAuthEnvironment gcp_guide_config ''gcp-prod'' Map.empty))
     ''credentials_file'' = Some ''/secrets/sa.json''"
  by (simp add: clearAuthEnvironment_apply credential_variables_def gcp_guide_env)

section \<open>Comparator classification\<close>

lemma execs_append_Exec: "execs (tr @ [Exec args dir e]) = Suc (execs tr)"
  by (simp add: execs_def)

text \<open>
  Claim C3. On an existing project path whose init succeeds, when \<^verbatim>\<open>terraform plan\<close>
  exits with code \<open>exitCode\<close> (code 0 being a run without error), \<open>CheckDrift\<close> returns
  the plan output and that code, with no error exactly when the code is 0 (no drift) or
  2 (drift), and with a non-nil error for every other code.
\<close>

theorem CheckDrift_classifies_exit_code:
  assumes path: "\<not> path_missing w (execs (trace s)) projectPath"
      and init: "exec_result w (execs (trace s)) init_args projectPath (buildEnv (env s)) = (initOutput, None)"
      and plan: "exec_result w (Suc (execs (trace s))) plan_args projectPath (buildEnv (env s)) =
                   (planOutput, if exitCode = 0 then None else Some (ExitError exitCode))"
  shows "fst (CheckDrift w projectPath s) =
           (planOutput, exitCode,
            if exitCode = 0 \<or> exitCode = 2 then None
            else Some (TerraformPlanFailed (PlanExitCode exitCode planOutput)))"
  using path init plan
  by (simp add: CheckDrift_def runTerraformInit_def runTerraformPlan_def run_command_def
      execs_append_Exec)

text \<open>
  Witness of C3: plans that exit with 2 and with 3.
\<close>

theorem CheckDrift_classifies_exit_code_witness:
  "\<not> path_missing (steady_world 2 200) (execs (trace start)) ''/srv/app'' \<and>
   exec_result (steady_world 2 200) (execs (trace start)) init_args ''/srv/app''
     (buildEnv (env start)) = ([], None) \<and>
   exec_result (steady_world 2 200) (Suc (execs (trace start))) plan_args ''/srv/app''
     (buildEnv (env start)) = (''drift'', if (2::int) = 0 then None else Some (ExitError 2)) \<and>
   fst (CheckDrift (steady_world 2 200) ''/srv/app'' start) = (''drift'', 2, None) \<and>
   fst (CheckDrift (steady_world 3 200) ''/srv/app'' start) =
     (''drift'', 3, Some (TerraformPlanFailed (PlanExitCode 3 ''drift'')))"
proof -
  have a: "\<And>c. \<not> path_missing (steady_world c 200) (execs (trace start)) ''/srv/app''"
    by (simp add: steady_world_def)
  have b: "\<And>c. exec_result (steady_world c 200) (execs (trace start)) init_args ''/srv/app''
     (buildEnv (env start)) = ([], None)"
    by (simp add: steady_world_def init_args_def plan_args_def)
  have c: "\<And>c. exec_result (steady_world c 200) (Suc (execs (trace start))) plan_args ''/srv/app''
     (buildEnv (env start)) = (''drift'', if c = 0 then None else Some (ExitError c))"
    by (simp add: steady_world_def)
  from CheckDrift_classifies_exit_code [OF a b c, of 2]
       CheckDrift_classifies_exit_code [OF a b c, of 3] a [of 2] b [of 2] c [of 2]
  show ?thesis by simp
qed

section \<open>Run lock\<close>

text \<open>
  Claim C4, as amended. When the marker exists and is at most one hour old, \<open>Acquire\<close>
  fails with \<open>AlreadyRunning\<close> and leaves lock and files as they were. When it is older,
  \<open>Acquire\<close> tries to remove it and attempts the exclusive creation once: if the removal
  is refused the marker is still there and \<open>Acquire\<close> fails with \<open>AlreadyRunning\<close>; if
  the creation fails for a reason other than the marker's existence it fails with
  \<open>CreateLockFailed\<close>; otherwise the lock is held and the marker is a fresh file with
  the process id and the time.
\<close>

theorem Acquire_existing_marker:
  assumes "fs (lockPath fl) = Some info"
  shows "(now lw - modTime info \<le> Hour \<longrightarrow>
            Acquire lw fl fs = (Some (AlreadyRunning (lockPath fl)), fl, fs)) \<and>
         (now lw - modTime info > Hour \<longrightarrow>
            Acquire lw fl fs =
              (if remove_refused lw then (Some (AlreadyRunning (lockPath fl)), fl, fs)
               else if create_fails lw then (Some CreateLockFailed, fl, fs(lockPath fl := None))
               else (None, fl\<lparr>lockFile := Some (lockPath fl)\<rparr>,
                     fs(lockPath fl \<mapsto>
                        \<lparr>modTime = now lw,
                         content = ''PID: '' @ pid_text lw @ [CHR 0x0A] @
                                   ''Time: '' @ now_text lw @ [CHR 0x0A]\<rparr>))))"
  using assms by (simp add: Acquire_def os_Remove_def OpenFile_excl_def)

text \<open>
  Witness of C4: a marker exactly one hour old blocks the run, a marker one nanosecond
  older is reclaimed.
\<close>

theorem Acquire_existing_marker_witness:
  "old_marker (lockPath the_lock) = Some \<lparr>modTime = 0, content = ''PID: 4711''\<rparr> \<and>
   now (lock_world_at 3600000000000 False) - 0 \<le> Hour \<and>
   Acquire (lock_world_at 3600000000000 False) the_lock old_marker =
     (Some (AlreadyRunning ''/tmp/terradrift-watcher.lock''), the_lock, old_marker) \<and>
   now (lock_world_at 3600000000001 False) - 0 > Hour \<and>
   fst (Acquire (lock_world_at 3600000000001 False) the_lock old_marker) = None"
proof -
  have m: "old_marker (lockPath the_lock) = Some \<lparr>modTime = 0, content = ''PID: 4711''\<rparr>"
    by (simp add: old_marker_def the_lock_def)
  have f: "now (lock_world_at 3600000000000 False) - 0 \<le> Hour"
    by (simp add: lock_world_at_def Hour_def)
  have g: "now (lock_world_at 3600000000001 False) - 0 > Hour"
    by (simp add: lock_world_at_def Hour_def)
  from Acquire_existing_marker [where fs = old_marker and fl = the_lock and
         lw = "lock_world_at 3600000000000 False", OF m]
       Acquire_existing_marker [where fs = old_marker and fl = the_lock and
         lw = "lock_world_at 3600000000001 False", OF m] m f g
  show ?thesis by (simp add: the_lock_def lock_world_at_def)
qed

text \<open>
  Claim C4, as stated, fails: a marker two hours old that the operating system refuses
  to remove is not reclaimed; \<open>Acquire\<close> fails with \<open>AlreadyRunning\<close>.
\<close>

theorem Acquire_stale_marker_not_removable:
  "old_marker (lockPath the_lock) = Some \<lparr>modTime = 0, content = ''PID: 4711''\<rparr> \<and>
   now (lock_world_at 7200000000000 True) - 0 > Hour \<and>
   Acquire (lock_world_at 7200000000000 True) the_lock old_marker =
     (Some (AlreadyRunning ''/tmp/terradrift-watcher.lock''), the_lock, old_marker)"
  by (simp add: Acquire_def os_Remove_def OpenFile_excl_def the_lock_def old_marker_def
      lock_world_at_def Hour_def)

section \<open>Alert channels\<close>

text \<open>
  Claim C9. When the notifier that a name resolves to has its enabled flag explicitly
  false, \<open>sendNotification\<close> returns nil and leaves the process state, and so the trace
  of network calls, unchanged.
\<close>

theorem sendNotification_disabled:
  assumes "GetNotifier cfg notifierName = Inr notifierCfg"
      and "n_Enabled notifierCfg = Some False"
  shows "sendNotification w cfg notifierName projectName summary planOutput s = (None, s)"
  using assms by (simp add: sendNotification_def)

text \<open>
  Witness of C9: the muted Slack channel, in a world that would answer every POST with
  status 500.
\<close>

theorem sendNotification_disabled_witness:
  "GetNotifier mixed_config ''slack-muted'' =
     Inr \<lparr>n_Name = ''slack-muted'', n_Type = ''slack'',
          n_Config = [(''webhook_url'', ''https://hooks.slack.example/T000'')],
          n_Enabled = Some False\<rparr> \<and>
   sendNotification (steady_world 2 500) mixed_config ''slack-muted'' ''app'' ''summary'' ''drift'' start
     = (None, start)"
proof -
  have g: "GetNotifier mixed_config ''slack-muted'' =
     Inr \<lparr>n_Name = ''slack-muted'', n_Type = ''slack'',
          n_Config = [(''webhook_url'', ''https://hooks.slack.example/T000'')],
          n_Enabled = Some False\<rparr>"
    by (simp add: GetNotifier_def mixed_config_def)
  from sendNotification_disabled [OF g, of "steady_world 2 500" "''app''" "''summary''" "''drift''" start] g
  show ?thesis by simp
qed

section \<open>Disabled projects\<close>

lemma GetAuthProfile_Projects [simp]:
  "GetAuthProfile (cfg\<lparr>cfg_Projects := ps\<rparr>) = GetAuthProfile cfg"
  by (simp add: GetAuthProfile_def fun_eq_iff)

lemma GetNotifier_Projects [simp]:
  "GetNotifier (cfg\<lparr>cfg_Projects := ps\<rparr>) = GetNotifier cfg"
  by (simp add: GetNotifier_def fun_eq_iff)

lemma sendNotification_Projects [simp]:
  "sendNotification w (cfg\<lparr>cfg_Projects := ps\<rparr>) = sendNotification w cfg"
  by (simp add: sendNotification_def fun_eq_iff)

lemma setAuthEnvironment_Projects [simp]:
  "setAuthEnvironment (cfg\<lparr>cfg_Projects := ps\<rparr>) = setAuthEnvironment cfg"
  by (simp add: setAuthEnvironment_def fun_eq_iff)

lemma notify_all_Projects [simp]:
  "notify_all w (cfg\<lparr>cfg_Projects := ps\<rparr>) projectName summary planOutput names acc =
   notify_all w cfg projectName summary planOutput names acc"
  by (induction w cfg projectName summary planOutput names acc rule: notify_all.induct)
     (simp_all split: prod.splits option.splits)

lemma process_project_Projects [simp]:
  "process_project w (cfg\<lparr>cfg_Projects := ps\<rparr>) = process_project w cfg"
  by (simp add: process_project_def fun_eq_iff cong: prod.case_cong sum.case_cong if_cong)

lemma process_project_disabled:
  "p_Enabled project = Some False \<Longrightarrow> process_project w cfg project v = v"
  by (simp add: process_project_def)

text \<open>
  Claim C7. A project whose enabled flag is explicitly false leaves every variable of the
  run as it was: no child process, no POST, no change of \<open>hasErrors\<close> or \<open>driftFound\<close>;
  a run over a project list that holds it returns what the run over the list without it
  returns, the final process state and trace included.
\<close>

theorem disabled_project_is_skipped:
  assumes "p_Enabled project = Some False"
  shows "process_project w cfg project v = v \<and>
         RunWithResult w (cfg\<lparr>cfg_Projects := before @ [project] @ after\<rparr>) s =
           RunWithResult w (cfg\<lparr>cfg_Projects := before @ after\<rparr>) s"
  using assms
  by (simp add: RunWithResult_def process_project_disabled Let_def
      split: prod.splits option.splits)

text \<open>
  Witness of C7: the paused project between two others.
\<close>

theorem disabled_project_is_skipped_witness:
  "p_Enabled paused_project = Some False \<and>
   RunWithResult (steady_world 2 500)
     (mixed_config\<lparr>cfg_Projects := [ghost_project] @ [paused_project] @ [app_project]\<rparr>) start =
   RunWithResult (steady_world 2 500)
     (mixed_config\<lparr>cfg_Projects := [ghost_project] @ [app_project]\<rparr>) start"
proof -
  have d: "p_Enabled paused_project = Some False"
    by (simp add: paused_project_def)
  from disabled_project_is_skipped [OF d, of "steady_world 2 500" mixed_config _ "[ghost_project]"
      "[app_project]" start] d
  show ?thesis by simp
qed

section \<open>Aggregate result\<close>

lemma notify_all_acc:
  "notify_all w cfg pn sm po names (sent, errs, s) =
     (case notify_all w cfg pn sm po names (0, False, s) of
        (sent', errs', s') \<Rightarrow> (sent + sent', errs \<or> errs', s'))"
proof (induction names arbitrary: sent errs s)
  case Nil
  then show ?case by simp
next
  case (Cons name names)
  obtain r s1 where send: "sendNotification w cfg name pn sm po s = (r, s1)"
    by (cases "sendNotification w cfg name pn sm po s")
  show ?case
  proof (cases r)
    case None
    with send show ?thesis
      using Cons.IH [of "sent + 1" errs s1] Cons.IH [of 1 False s1]
      by (simp split: prod.splits)
  next
    case (Some e)
    with send show ?thesis
      using Cons.IH [of sent True s1] Cons.IH [of 0 True s1]
      by (simp split: prod.splits)
  qed
qed

lemma notify_all_errs:
  "fst (snd (notify_all w cfg pn sm po names (sent, errs, s))) =
     (errs \<or> fst (snd (notify_all w cfg pn sm po names (0, False, s))))"
  by (subst notify_all_acc) (simp split: prod.splits)

lemma process_project_hasErrors:
  "hasErrors (process_project w cfg p v) = (hasErrors v \<or> project_fails w cfg p v)"
proof (cases "p_Enabled p = Some False")
  case True
  then show ?thesis by (simp add: process_project_def project_fails_def)
next
  case en: False
  show ?thesis
  proof (cases "credentials_fail cfg p v")
    case True
    with en show ?thesis
      by (auto simp: process_project_def project_fails_def credentials_fail_def
          split: prod.splits option.splits)
  next
    case False
    obtain po code err s2 where cd:
      "CheckDrift w (p_Path p) (state_at_compare cfg p v) = ((po, code, err), s2)"
      by (metis prod_cases3 surj_pair)
    obtain k h s3 where na:
      "notify_all w cfg (p_Name p) (ExtractPlanSummary po) po (p_Notifiers p) (0, hasErrors v, s2)
         = (k, h, s3)"
      by (metis prod_cases3)
    have h: "h = (hasErrors v \<or> fst (snd (notify_all w cfg (p_Name p) (ExtractPlanSummary po) po
                 (p_Notifiers p) (0, False, s2))))"
      using notify_all_errs [of w cfg "p_Name p" "ExtractPlanSummary po" po "p_Notifiers p" 0
          "hasErrors v" s2] na by simp
    from en False cd na h show ?thesis
      by (auto simp: process_project_def project_fails_def credentials_fail_def
          state_at_compare_def split: prod.splits option.splits)
  qed
qed

lemma process_project_driftFound:
  "driftFound (process_project w cfg p v) = (driftFound v \<or> project_drifts w cfg p v)"
proof (cases "p_Enabled p = Some False")
  case True
  then show ?thesis by (simp add: process_project_def project_drifts_def)
next
  case en: False
  show ?thesis
  proof (cases "credentials_fail cfg p v")
    case True
    with en show ?thesis
      by (auto simp: process_project_def project_drifts_def credentials_fail_def
          split: prod.splits option.splits)
  next
    case False
    obtain po code err s2 where cd:
      "CheckDrift w (p_Path p) (state_at_compare cfg p v) = ((po, code, err), s2)"
      by (metis prod_cases3 surj_pair)
    from en False cd show ?thesis
      by (auto simp: process_project_def project_drifts_def credentials_fail_def
          state_at_compare_def split: prod.splits option.splits)
  qed
qed

lemma fold_hasErrors:
  "hasErrors (fold (process_project w cfg) ps v) =
     (hasErrors v \<or> (\<exists>(p, u) \<in> set (zip ps (states_before w cfg ps v)). project_fails w cfg p u))"
  by (induction ps arbitrary: v) (auto simp: process_project_hasErrors)

lemma fold_driftFound:
  "driftFound (fold (process_project w cfg) ps v) =
     (driftFound v \<or> (\<exists>(p, u) \<in> set (zip ps (states_before w cfg ps v)). project_drifts w cfg p u))"
  by (induction ps arbitrary: v) (auto simp: process_project_driftFound)

lemma length_states_before: "length (states_before w cfg ps v) = length ps"
  by (induction ps arbitrary: v) simp_all

text \<open>
  Claim C6, as amended. In a run that passes the Terraform installation check, every
  project of the list is reached, whatever the projects before it did; the returned
  drift flag is true exactly when some project drifts, and the returned error is the
  generic \<open>CompletedWithErrors\<close> exactly when some project fails and nil otherwise, each
  independently of the other.
\<close>

theorem RunWithResult_aggregate:
  assumes "fst (ValidateTerraformInstallation w s) = None"
  shows "length (states_before w cfg (cfg_Projects cfg)
            \<lparr>proc = snd (ValidateTerraformInstallation w s), hasErrors = False,
             driftFound = False, deferred = 0\<rparr>) = length (cfg_Projects cfg) \<and>
         fst (RunWithResult w cfg s) =
           ((\<exists>(p, u) \<in> set (zip (cfg_Projects cfg) (states_before w cfg (cfg_Projects cfg)
                \<lparr>proc = snd (ValidateTerraformInstallation w s), hasErrors = False,
                 driftFound = False, deferred = 0\<rparr>)). project_drifts w cfg p u),
            (if (\<exists>(p, u) \<in> set (zip (cfg_Projects cfg) (states_before w cfg (cfg_Projects cfg)
                \<lparr>proc = snd (ValidateTerraformInstallation w s), hasErrors = False,
                 driftFound = False, deferred = 0\<rparr>)). project_fails w cfg p u)
             then Some CompletedWithErrors else None))"
proof -
  obtain s' where v: "ValidateTerraformInstallation w s = (None, s')"
    using assms by (cases "ValidateTerraformInstallation w s") simp
  then show ?thesis
    by (simp add: RunWithResult_def Let_def fold_hasErrors fold_driftFound length_states_before)
qed

text \<open>
  Witness of C6: the first project's credential profile is missing, the second drifts.
\<close>

theorem RunWithResult_aggregate_witness:
  "fst (ValidateTerraformInstallation (steady_world 2 200) start) = None \<and>
   fst (RunWithResult (steady_world 2 200) mixed_config start) = (True, Some CompletedWithErrors)"
proof -
  have h: "fst (ValidateTerraformInstallation (steady_world 2 200) start) = None"
    by code_simp
  have d: "\<exists>(p, u) \<in> set (zip (cfg_Projects mixed_config)
              (states_before (steady_world 2 200) mixed_config (cfg_Projects mixed_config)
                \<lparr>proc = snd (ValidateTerraformInstallation (steady_world 2 200) start),
                 hasErrors = False, driftFound = False, deferred = 0\<rparr>)).
            project_drifts (steady_world 2 200) mixed_config p u"
    by code_simp
  have e: "\<exists>(p, u) \<in> set (zip (cfg_Projects mixed_config)
              (states_before (steady_world 2 200) mixed_config (cfg_Projects mixed_config)
                \<lparr>proc = snd (ValidateTerraformInstallation (steady_world 2 200) start),
                 hasErrors = False, driftFound = False, deferred = 0\<rparr>)).
            project_fails (steady_world 2 200) mixed_config p u"
    by code_simp
  from RunWithResult_aggregate [OF h, of mixed_config] d e h
  show ?thesis by (simp only: simp_thms if_True)
qed

text \<open>
  Claim C6, as stated, fails: when \<^verbatim>\<open>terraform version\<close> cannot be run, no project
  is touched and none produces an error, yet the returned error is not nil.
\<close>

theorem RunWithResult_without_terraform:
  "RunWithResult no_terraform_world two_cloud_config start =
     ((False, Some (TerraformValidationFailed TerraformNotInstalled)),
      start\<lparr>trace := [Exec version_args [] Map.empty]\<rparr>)"
  by (simp add: RunWithResult_def ValidateTerraformInstallation_def run_command_def
      no_terraform_world_def start_def execs_def)

section \<open>Unimplemented alert channels\<close>

lemma unimplemented_kind_send:
  "unimplemented_kind cfg name \<Longrightarrow>
   sendNotification w cfg name projectName summary planOutput s = (None, s)"
  by (auto simp: unimplemented_kind_def sendNotification_def split: sum.splits)

lemma notify_all_append:
  "notify_all w cfg pn sm po (xs @ ys) acc =
     notify_all w cfg pn sm po ys (notify_all w cfg pn sm po xs acc)"
  by (induction w cfg pn sm po xs acc rule: notify_all.induct)
     (simp_all split: prod.splits option.splits)

lemma notify_all_skip_unimplemented:
  assumes "unimplemented_kind cfg name"
  shows "notify_all w cfg pn sm po (before @ name # after) (sent, errs, s) =
           (case notify_all w cfg pn sm po (before @ after) (sent, errs, s) of
              (k, h, s') \<Rightarrow> (k + 1, h, s'))"
proof -
  obtain k1 h1 s1 where b: "notify_all w cfg pn sm po before (sent, errs, s) = (k1, h1, s1)"
    by (metis prod_cases3)
  obtain k2 h2 s2 where a: "notify_all w cfg pn sm po after (0, False, s1) = (k2, h2, s2)"
    by (metis prod_cases3)
  have x: "notify_all w cfg pn sm po after (k1 + 1, h1, s1) = (k1 + 1 + k2, h1 \<or> h2, s2)"
    using notify_all_acc [of w cfg pn sm po after "k1 + 1" h1 s1] by (simp add: a)
  have y: "notify_all w cfg pn sm po after (k1, h1, s1) = (k1 + k2, h1 \<or> h2, s2)"
    using notify_all_acc [of w cfg pn sm po after k1 h1 s1] by (simp add: a)
  have z: "notify_all w cfg pn sm po (name # after) (k1, h1, s1) =
             notify_all w cfg pn sm po after (k1 + 1, h1, s1)"
    by (simp add: unimplemented_kind_send [OF assms])
  have l: "notify_all w cfg pn sm po (before @ name # after) (sent, errs, s) =
             (k1 + 1 + k2, h1 \<or> h2, s2)"
    by (simp only: notify_all_append b z x)
  have r: "notify_all w cfg pn sm po (before @ after) (sent, errs, s) = (k1 + k2, h1 \<or> h2, s2)"
    by (simp only: notify_all_append b y)
  show ?thesis
    by (simp only: l r prod.case) simp
qed

text \<open>
  Claim C10. For a notifier name that resolves to an enabled notifier of type \<open>teams\<close> or
  \<open>email\<close>, \<open>sendNotification\<close> returns nil with the process state unchanged: no POST,
  no wait, no retry. Wherever the name stands in the list of a project's notifiers, the
  loop over the list ends in the state, and with the \<open>hasErrors\<close> flag, of the loop over
  the list without that name, and with a count of notifications sent that is higher by
  one: the name is counted as sent and records no error, whatever the other notifiers of
  the list do. In \<open>process_project\<close>, for a project that drifts and names such a notifier,
  the count of notifications sent is positive, so the state after the project is the
  state that the loop over the notifiers left, without the unnotified-drift warning, and
  \<open>hasErrors\<close> is what the loop left.
\<close>

theorem unimplemented_kind_counts_as_sent:
  assumes "unimplemented_kind cfg name"
  shows "sendNotification w cfg name projectName summary planOutput s = (None, s) \<and>
         notify_all w cfg projectName summary planOutput (before @ name # after) (sent, errs, s) =
           (case notify_all w cfg projectName summary planOutput (before @ after) (sent, errs, s) of
              (notificationsSent, hasErrs, s') \<Rightarrow> (notificationsSent + 1, hasErrs, s')) \<and>
         (project_drifts w cfg project v \<and> name \<in> set (p_Notifiers project) \<longrightarrow>
            (case CheckDrift w (p_Path project) (state_at_compare cfg project v) of
               ((planOutput', exitCode, err), s2) \<Rightarrow>
                 (case notify_all w cfg (p_Name project) (ExtractPlanSummary planOutput') planOutput'
                         (p_Notifiers project) (0, hasErrors v, s2) of
                    (notificationsSent, hasErrs, s3) \<Rightarrow>
                      0 < notificationsSent \<and>
                      proc (process_project w cfg project v) = s3 \<and>
                      hasErrors (process_project w cfg project v) = hasErrs \<and>
                      driftFound (process_project w cfg project v))))"
proof (intro conjI impI)
  show "sendNotification w cfg name projectName summary planOutput s = (None, s)"
    using assms by (rule unimplemented_kind_send)
  show "notify_all w cfg projectName summary planOutput (before @ name # after) (sent, errs, s) =
           (case notify_all w cfg projectName summary planOutput (before @ after) (sent, errs, s) of
              (notificationsSent, hasErrs, s') \<Rightarrow> (notificationsSent + 1, hasErrs, s'))"
    using assms by (rule notify_all_skip_unimplemented)
next
  assume h: "project_drifts w cfg project v \<and> name \<in> set (p_Notifiers project)"
  obtain po code err s2 where cd:
    "CheckDrift w (p_Path project) (state_at_compare cfg project v) = ((po, code, err), s2)"
    by (metis prod_cases3 surj_pair)
  from h cd have en: "p_Enabled project \<noteq> Some False" and cf: "\<not> credentials_fail cfg project v"
    and c2: "code = 2"
    by (simp_all add: project_drifts_def)
  from h obtain before after where sp: "p_Notifiers project = before @ name # after"
    by (meson split_list)
  obtain k h3 s3 where na:
    "notify_all w cfg (p_Name project) (ExtractPlanSummary po) po (p_Notifiers project)
       (0, hasErrors v, s2) = (k, h3, s3)"
    by (metis prod_cases3)
  have pos: "0 < k"
    using na notify_all_skip_unimplemented [OF assms, of w "p_Name project" "ExtractPlanSummary po" po
        before after 0 "hasErrors v" s2]
    by (simp add: sp split: prod.splits)
  have pp: "proc (process_project w cfg project v) = s3 \<and>
            hasErrors (process_project w cfg project v) = h3 \<and>
            driftFound (process_project w cfg project v)"
  proof (cases "p_AuthProfile project = []")
    case True
    with cd have cd': "CheckDrift w (p_Path project) (proc v) = ((po, 2, err), s2)"
      by (simp add: state_at_compare_def c2)
    from True en pos show ?thesis
      by (simp add: process_project_def cd' na)
  next
    case False
    with cf obtain e where ap:
      "setAuthEnvironment cfg (p_AuthProfile project) (env (proc v)) = (None, e)"
      by (cases "setAuthEnvironment cfg (p_AuthProfile project) (env (proc v))")
         (simp add: credentials_fail_def)
    with cd False have cd': "CheckDrift w (p_Path project) ((proc v)\<lparr>env := e\<rparr>) = ((po, 2, err), s2)"
      by (simp add: state_at_compare_def c2)
    from False en pos show ?thesis
      by (simp add: process_project_def ap cd' na)
  qed
  from pos pp show "case CheckDrift w (p_Path project) (state_at_compare cfg project v) of
               ((planOutput', exitCode, err), s2) \<Rightarrow>
                 (case notify_all w cfg (p_Name project) (ExtractPlanSummary planOutput') planOutput'
                         (p_Notifiers project) (0, hasErrors v, s2) of
                    (notificationsSent, hasErrs, s3) \<Rightarrow>
                      0 < notificationsSent \<and>
                      proc (process_project w cfg project v) = s3 \<and>
                      hasErrors (process_project w cfg project v) = hasErrs \<and>
                      driftFound (process_project w cfg project v))"
    by (simp add: cd na)
qed

text \<open>
  Witness of C10: \<open>alert_project\<close> drifts and notifies the Teams channel and then a Slack
  channel whose every POST is answered with status 500. The Slack channel alone counts 0
  and records an error; with the Teams channel before it the count is 1, the error stays
  recorded, the four POSTs of the Slack delivery are made and no warning is written.
\<close>

theorem unimplemented_kind_counts_as_sent_witness:
  "unimplemented_kind mixed_config ''teams-alerts'' \<and>
   project_drifts (steady_world 2 500) mixed_config alert_project
     \<lparr>proc = start, hasErrors = False, driftFound = False, deferred = 0\<rparr> \<and>
   ''teams-alerts'' \<in> set (p_Notifiers alert_project) \<and>
   sendNotification (steady_world 2 500) mixed_config ''teams-alerts'' ''app'' ''summary'' ''drift'' start
     = (None, start) \<and>
   fst (notify_all (steady_world 2 500) mixed_config ''app'' ''summary'' ''drift''
          [''slack-ops''] (0, False, start)) = 0 \<and>
   fst (snd (notify_all (steady_world 2 500) mixed_config ''app'' ''summary'' ''drift''
          [''slack-ops''] (0, False, start))) \<and>
   fst (notify_all (steady_world 2 500) mixed_config ''app'' ''summary'' ''drift''
          [''teams-alerts'', ''slack-ops''] (0, False, start)) = 1 \<and>
   fst (snd (notify_all (steady_world 2 500) mixed_config ''app'' ''summary'' ''drift''
          [''teams-alerts'', ''slack-ops''] (0, False, start))) \<and>
   hasErrors (process_project (steady_world 2 500) mixed_config alert_project
     \<lparr>proc = start, hasErrors = False, driftFound = False, deferred = 0\<rparr>) \<and>
   driftFound (process_project (steady_world 2 500) mixed_config alert_project
     \<lparr>proc = start, hasErrors = False, driftFound = False, deferred = 0\<rparr>) \<and>
   posts (trace (proc (process_project (steady_world 2 500) mixed_config alert_project
     \<lparr>proc = start, hasErrors = False, driftFound = False, deferred = 0\<rparr>))) = 4 \<and>
   warnings (trace (proc (process_project (steady_world 2 500) mixed_config alert_project
     \<lparr>proc = start, hasErrors = False, driftFound = False, deferred = 0\<rparr>))) = 0"
proof -
  let ?w = "steady_world 2 500"
  let ?v = "\<lparr>proc = start, hasErrors = False, driftFound = False, deferred = 0\<rparr>"
  let ?cd = "CheckDrift ?w (p_Path alert_project) (state_at_compare mixed_config alert_project ?v)"
  let ?na = "notify_all ?w mixed_config (p_Name alert_project) (ExtractPlanSummary (fst (fst ?cd)))
               (fst (fst ?cd)) (p_Notifiers alert_project) (0, hasErrors ?v, snd ?cd)"
  let ?pp = "process_project ?w mixed_config alert_project ?v"
  have t: "unimplemented_kind mixed_config ''teams-alerts''"
    by (simp add: unimplemented_kind_def GetNotifier_def mixed_config_def)
  have d: "project_drifts ?w mixed_config alert_project ?v"
    by code_simp
  have m: "''teams-alerts'' \<in> set (p_Notifiers alert_project)"
    by (simp add: alert_project_def)
  have k0: "fst (notify_all ?w mixed_config ''app'' ''summary'' ''drift''
              [''slack-ops''] (0, False, start)) = 0"
    by code_simp
  have h0: "fst (snd (notify_all ?w mixed_config ''app'' ''summary'' ''drift''
              [''slack-ops''] (0, False, start)))"
    by code_simp
  have e: "fst (snd ?na)"
    by code_simp
  have p: "posts (trace (snd (snd ?na))) = 4"
    by code_simp
  have n: "warnings (trace (snd (snd ?na))) = 0"
    by code_simp
  note th = unimplemented_kind_counts_as_sent [OF t, of ?w "''app''" "''summary''" "''drift''" start
      "[]" "[''slack-ops'']" 0 False alert_project ?v]
  from th have s: "sendNotification ?w mixed_config ''teams-alerts'' ''app'' ''summary'' ''drift'' start
     = (None, start)"
    by blast
  obtain k h s' where o: "notify_all ?w mixed_config ''app'' ''summary'' ''drift'' [''slack-ops'']
      (0, False, start) = (k, h, s')"
    by (metis prod_cases3)
  from th have "notify_all ?w mixed_config ''app'' ''summary'' ''drift''
      ([] @ ''teams-alerts'' # [''slack-ops'']) (0, False, start) =
      (case notify_all ?w mixed_config ''app'' ''summary'' ''drift'' ([] @ [''slack-ops''])
              (0, False, start) of
         (notificationsSent, hasErrs, s') \<Rightarrow> (notificationsSent + 1, hasErrs, s'))"
    by blast
  then have "notify_all ?w mixed_config ''app'' ''summary'' ''drift''
      [''teams-alerts'', ''slack-ops''] (0, False, start) = (k + 1, h, s')"
    by (simp only: append_Nil o prod.case)
  moreover from k0 h0 o have "k = 0" and "h" by simp_all
  ultimately have k1: "fst (notify_all ?w mixed_config ''app'' ''summary'' ''drift''
          [''teams-alerts'', ''slack-ops''] (0, False, start)) = 1"
    and h1: "fst (snd (notify_all ?w mixed_config ''app'' ''summary'' ''drift''
          [''teams-alerts'', ''slack-ops''] (0, False, start)))"
    by simp_all
  have "case ?cd of
               ((planOutput', exitCode, err), s2) \<Rightarrow>
                 (case notify_all ?w mixed_config (p_Name alert_project)
                         (ExtractPlanSummary planOutput') planOutput'
                         (p_Notifiers alert_project) (0, hasErrors ?v, s2) of
                    (notificationsSent, hasErrs, s3) \<Rightarrow>
                      0 < notificationsSent \<and>
                      proc ?pp = s3 \<and> hasErrors ?pp = hasErrs \<and> driftFound ?pp)"
    by (rule th [THEN conjunct2, THEN conjunct2, THEN mp]) (simp only: d m simp_thms)
  then have c: "proc ?pp = snd (snd ?na) \<and> hasErrors ?pp = fst (snd ?na) \<and> driftFound ?pp"
    by (simp split: prod.splits)
  from c e p n have r: "hasErrors ?pp" "driftFound ?pp" "posts (trace (proc ?pp)) = 4"
    "warnings (trace (proc ?pp)) = 0"
    by simp_all
  from t d m s k0 h0 k1 h1 r show ?thesis
    by (simp only: simp_thms)
qed

section \<open>Retry with backoff\<close>

declare retry_loop.simps [simp del]

lemma backoff_doubles:
  assumes "1 \<le> i" and "i \<le> 34"
  shows "sint (backoff i) = 2 ^ nat (i - 1) * 1000000000"
proof -
  define n where "n = nat (i - 1)"
  have n: "n \<le> 33" using assms by (simp add: n_def)
  have w: "backoff i = (word_of_int (2 ^ n * 1000000000) :: 64 word)"
    by (simp add: backoff_def n_def)
  have "(2::int) ^ n \<le> 2 ^ 33" using n by (intro power_increasing) simp_all
  then have b: "(2::int) ^ n * 1000000000 < 2 ^ 63" by simp
  have p: "- (2 ^ 63) \<le> (2::int) ^ n * 1000000000"
    by (rule order_trans [of _ 0]) simp_all
  have "signed_take_bit 63 ((2::int) ^ n * 1000000000) = 2 ^ n * 1000000000"
    by (rule signed_take_bit_int_eq_self [OF p b])
  moreover have "sint (word_of_int (2 ^ n * 1000000000) :: 64 word) =
      signed_take_bit (LENGTH(64) - 1) ((2::int) ^ n * 1000000000)"
    by (rule sint_sbintrunc')
  moreover have "LENGTH(64) - 1 = (63::nat)" by simp
  ultimately have "sint (word_of_int (2 ^ n * 1000000000) :: 64 word) = 2 ^ n * 1000000000"
    by (simp only:)
  with w show ?thesis by (simp add: n_def)
qed

lemma posts_append_post: "posts (tr @ [HttpPost url msg]) = Suc (posts tr)"
  by (simp add: posts_def)

lemma posts_append_sleep: "posts (tr @ [Sleep d]) = posts tr"
  by (simp add: posts_def)

lemma send_ok_url:
  assumes "url \<noteq> []" and "\<not> request_invalid w url"
  shows "SendSlackRichNotification w url pn ds po s =
           (response_error (http_do w (posts (trace s)) url (rich_message pn ds po)),
            s\<lparr>trace := trace s @ [HttpPost url (rich_message pn ds po)]\<rparr>)"
  using assms by (simp add: SendSlackRichNotification_def Let_def)

lemma send_bad_url:
  assumes "url = [] \<or> request_invalid w url"
  shows "SendSlackRichNotification w url pn ds po s =
           (Some (if url = [] then WebhookURLEmpty else CreateRequestFailed), s)"
  using assms by (auto simp: SendSlackRichNotification_def Let_def)

lemma retry_success_from:
  assumes "url \<noteq> []" and "\<not> request_invalid w url"
      and "1 \<le> a" and "int a + int d \<le> m"
      and "\<forall>i<d. response_error (http_do w (posts (trace s) + i) url (rich_message pn ds po)) \<noteq> None"
      and "response_error (http_do w (posts (trace s) + d) url (rich_message pn ds po)) = None"
  shows "retry_loop w url pn ds po m (int a) l s =
           (None, s\<lparr>trace := trace s @
              concat (map (\<lambda>i. [Sleep (backoff (int i)), HttpPost url (rich_message pn ds po)])
                          [a..<a + Suc d])\<rparr>)"
  using assms(3-)
proof (induction d arbitrary: a s l)
  case 0
  then show ?case
    by (subst retry_loop.simps)
       (simp add: send_ok_url [OF assms(1,2)] sleep_def posts_append_sleep)
next
  case (Suc d)
  let ?msg = "rich_message pn ds po"
  let ?s2 = "s\<lparr>trace := trace s @ [Sleep (backoff (int a)), HttpPost url ?msg]\<rparr>"
  from Suc.prems obtain e where
    e: "response_error (http_do w (posts (trace s)) url ?msg) = Some e"
    by (metis add.right_neutral not_Some_eq zero_less_Suc)
  have p2: "posts (trace ?s2) = Suc (posts (trace s))"
    by (simp add: posts_def)
  have p3: "posts (trace s @ [Sleep (backoff (int a)), HttpPost url ?msg]) = Suc (posts (trace s))"
    by (simp add: posts_def)
  have ih: "retry_loop w url pn ds po m (int (Suc a)) (Some e) ?s2 =
      (None, ?s2\<lparr>trace := trace ?s2 @
          concat (map (\<lambda>i. [Sleep (backoff (int i)), HttpPost url ?msg])
                      [Suc a..<Suc a + Suc d])\<rparr>)"
    using Suc.prems by (intro Suc.IH) (auto simp: p3)
  have step: "retry_loop w url pn ds po m (int a) l s =
      retry_loop w url pn ds po m (int (Suc a)) (Some e) ?s2"
    using Suc.prems e
    by (subst retry_loop.simps)
       (simp add: send_ok_url [OF assms(1,2)] sleep_def posts_append_sleep add.commute)
  have u: "[a..<a + Suc (Suc d)] = a # [Suc a..<Suc a + Suc d]"
    by (simp add: upt_conv_Cons)
  show ?case unfolding step ih u by simp
qed

lemma retry_exhausted_from:
  assumes "url \<noteq> []" and "\<not> request_invalid w url"
      and "1 \<le> a" and "int a + int d = m"
      and "\<forall>i\<le>d. response_error (http_do w (posts (trace s) + i) url (rich_message pn ds po)) \<noteq> None"
  shows "retry_loop w url pn ds po m (int a) l s =
           (Some (FailedAfterRetries (m + 1)
              (response_error (http_do w (posts (trace s) + d) url (rich_message pn ds po)))),
            s\<lparr>trace := trace s @
              concat (map (\<lambda>i. [Sleep (backoff (int i)), HttpPost url (rich_message pn ds po)])
                          [a..<a + Suc d])\<rparr>)"
  using assms(3-)
proof (induction d arbitrary: a s l)
  case 0
  let ?msg = "rich_message pn ds po"
  from 0 obtain e where
    e: "response_error (http_do w (posts (trace s)) url ?msg) = Some e"
    by auto
  have last: "\<And>s'. retry_loop w url pn ds po m (m + 1) (Some e) s' =
      (Some (FailedAfterRetries (m + 1) (Some e)), s')"
    by (subst retry_loop.simps) simp
  from 0 e show ?case
    by (subst retry_loop.simps)
       (simp add: send_ok_url [OF assms(1,2)] sleep_def posts_append_sleep last)
next
  case (Suc d)
  let ?msg = "rich_message pn ds po"
  let ?s2 = "s\<lparr>trace := trace s @ [Sleep (backoff (int a)), HttpPost url ?msg]\<rparr>"
  from Suc.prems obtain e where
    e: "response_error (http_do w (posts (trace s)) url ?msg) = Some e"
    by (metis add.right_neutral not_Some_eq zero_le)
  have p2: "posts (trace ?s2) = Suc (posts (trace s))"
    by (simp add: posts_def)
  have ih: "retry_loop w url pn ds po m (int (Suc a)) (Some e) ?s2 =
      (Some (FailedAfterRetries (m + 1)
         (response_error (http_do w (posts (trace ?s2) + d) url ?msg))),
       ?s2\<lparr>trace := trace ?s2 @
          concat (map (\<lambda>i. [Sleep (backoff (int i)), HttpPost url ?msg])
                      [Suc a..<Suc a + Suc d])\<rparr>)"
  proof (intro Suc.IH)
    show "1 \<le> Suc a" by simp
    show "int (Suc a) + int d = m" using Suc.prems by simp
    show "\<forall>i\<le>d. response_error (http_do w (posts (trace ?s2) + i) url ?msg) \<noteq> None"
    proof (intro allI impI)
      fix i assume "i \<le> d"
      then have "Suc i \<le> Suc d" by simp
      with Suc.prems(3) have
        "response_error (http_do w (posts (trace s) + Suc i) url ?msg) \<noteq> None"
        by blast
      then show "response_error (http_do w (posts (trace ?s2) + i) url ?msg) \<noteq> None"
        by (simp add: posts_def)
    qed
  qed
  have step: "retry_loop w url pn ds po m (int a) l s =
      retry_loop w url pn ds po m (int (Suc a)) (Some e) ?s2"
    using Suc.prems e
    by (subst retry_loop.simps)
       (simp add: send_ok_url [OF assms(1,2)] sleep_def posts_append_sleep add.commute)
  have u: "[a..<a + Suc (Suc d)] = a # [Suc a..<Suc a + Suc d]"
    by (simp add: upt_conv_Cons)
  show ?case unfolding step ih u by (simp add: posts_def)
qed

lemma retry_bad_url_from:
  assumes "url = [] \<or> request_invalid w url"
      and "1 \<le> a" and "int a + int d = m"
  shows "retry_loop w url pn ds po m (int a) l s =
           (Some (FailedAfterRetries (m + 1)
              (Some (if url = [] then WebhookURLEmpty else CreateRequestFailed))),
            s\<lparr>trace := trace s @ map (\<lambda>i. Sleep (backoff (int i))) [a..<a + Suc d]\<rparr>)"
  using assms(2-)
proof (induction d arbitrary: a s l)
  case 0
  have last: "\<And>e s'. retry_loop w url pn ds po m (m + 1) (Some e) s' =
      (Some (FailedAfterRetries (m + 1) (Some e)), s')"
    by (subst retry_loop.simps) simp
  from 0 show ?case
    by (subst retry_loop.simps) (simp add: send_bad_url [OF assms(1)] sleep_def last)
next
  case (Suc d)
  let ?e = "if url = [] then WebhookURLEmpty else CreateRequestFailed"
  let ?s2 = "s\<lparr>trace := trace s @ [Sleep (backoff (int a))]\<rparr>"
  have ih: "retry_loop w url pn ds po m (int (Suc a)) (Some ?e) ?s2 =
      (Some (FailedAfterRetries (m + 1) (Some ?e)),
       ?s2\<lparr>trace := trace ?s2 @ map (\<lambda>i. Sleep (backoff (int i))) [Suc a..<Suc a + Suc d]\<rparr>)"
    using Suc.prems by (intro Suc.IH) auto
  have step: "retry_loop w url pn ds po m (int a) l s =
      retry_loop w url pn ds po m (int (Suc a)) (Some ?e) ?s2"
    using Suc.prems
    by (subst retry_loop.simps) (simp add: send_bad_url [OF assms(1)] sleep_def add.commute)
  have u: "[a..<a + Suc (Suc d)] = a # [Suc a..<Suc a + Suc d]"
    by (simp add: upt_conv_Cons)
  show ?case unfolding step ih u by simp
qed

lemma retry_posts_bound:
  "posts (trace (snd (retry_loop w url pn ds po m a l s))) \<le> posts (trace s) + nat (m + 1 - a)"
proof (induction w url pn ds po m a l s rule: retry_loop.induct)
  case (1 w url pn ds po m a l s)
  show ?case
  proof (cases "a \<le> m")
    case False
    then show ?thesis by (subst retry_loop.simps) simp
  next
    case True
    let ?s1 = "if a > 0 then sleep (backoff a) s else s"
    obtain r s2 where send: "SendSlackRichNotification w url pn ds po ?s1 = (r, s2)"
      by (cases "SendSlackRichNotification w url pn ds po ?s1")
    have p1: "posts (trace ?s1) = posts (trace s)"
      by (simp add: sleep_def posts_def)
    have p2: "posts (trace s2) \<le> Suc (posts (trace s))"
      using send p1
      by (auto simp: SendSlackRichNotification_def Let_def posts_def split: if_splits)
    show ?thesis
    proof (cases r)
      case None
      with True send p2 show ?thesis
        by (subst retry_loop.simps) (simp add: Let_def)
    next
      case (Some e)
      have "posts (trace (snd (retry_loop w url pn ds po m (a + 1) (Some e) s2)))
              \<le> posts (trace s2) + nat (m + 1 - (a + 1))"
        by (rule "1.IH" [OF True refl _ refl]) (simp add: send Some)
      with True send Some p2 show ?thesis
        by (subst retry_loop.simps) (simp add: Let_def)
    qed
  qed
qed

lemma retry_last:
  "retry_loop w url pn ds po m (m + 1) l s = (Some (FailedAfterRetries (m + 1) l), s)"
  by (subst retry_loop.simps) simp

lemma delivery_success:
  assumes "url \<noteq> []" and "\<not> request_invalid w url"
      and "int k \<le> m"
      and "\<forall>i<k. response_error (http_do w (posts (trace s) + i) url (rich_message pn ds po)) \<noteq> None"
      and "response_error (http_do w (posts (trace s) + k) url (rich_message pn ds po)) = None"
  shows "SendSlackRichNotificationWithRetry w url pn ds po m s =
           (None, s\<lparr>trace := trace s @ delivery_schedule url (rich_message pn ds po) k\<rparr>)"
proof (cases k)
  case 0
  with assms show ?thesis
    by (simp add: SendSlackRichNotificationWithRetry_def delivery_schedule_def)
       (subst retry_loop.simps, simp add: send_ok_url)
next
  case (Suc d)
  let ?msg = "rich_message pn ds po"
  let ?s1 = "s\<lparr>trace := trace s @ [HttpPost url ?msg]\<rparr>"
  from assms(4) Suc obtain e where
    e: "response_error (http_do w (posts (trace s)) url ?msg) = Some e"
    by (metis add.right_neutral not_Some_eq zero_less_Suc)
  have step: "retry_loop w url pn ds po m 0 None s = retry_loop w url pn ds po m (int 1) (Some e) ?s1"
    using assms(3) e by (subst retry_loop.simps) (simp add: send_ok_url [OF assms(1,2)])
  have rest: "retry_loop w url pn ds po m (int 1) (Some e) ?s1 =
      (None, ?s1\<lparr>trace := trace ?s1 @
          concat (map (\<lambda>i. [Sleep (backoff (int i)), HttpPost url ?msg]) [1..<1 + Suc d])\<rparr>)"
  proof (rule retry_success_from [OF assms(1,2)])
    show "1 \<le> (1::nat)" by simp
    show "int 1 + int d \<le> m" using assms(3) Suc by simp
    show "\<forall>i<d. response_error (http_do w (posts (trace ?s1) + i) url ?msg) \<noteq> None"
      using assms(4) Suc by (auto simp: posts_def)
    show "response_error (http_do w (posts (trace ?s1) + d) url ?msg) = None"
      using assms(5) Suc by (simp add: posts_def)
  qed
  show ?thesis
    unfolding SendSlackRichNotificationWithRetry_def step rest
    by (simp add: delivery_schedule_def Suc)
qed

lemma delivery_exhausted:
  assumes "url \<noteq> []" and "\<not> request_invalid w url"
      and "0 \<le> m"
      and "\<forall>i\<le>nat m. response_error (http_do w (posts (trace s) + i) url (rich_message pn ds po)) \<noteq> None"
  shows "SendSlackRichNotificationWithRetry w url pn ds po m s =
           (Some (FailedAfterRetries (m + 1)
              (response_error (http_do w (posts (trace s) + nat m) url (rich_message pn ds po)))),
            s\<lparr>trace := trace s @ delivery_schedule url (rich_message pn ds po) (nat m)\<rparr>)"
proof (cases "nat m")
  case 0
  let ?msg = "rich_message pn ds po"
  from assms(4) obtain e where
    e: "response_error (http_do w (posts (trace s)) url ?msg) = Some e"
    by (metis add.right_neutral not_Some_eq zero_le)
  from 0 assms(3) have m: "m = 0" by simp
  show ?thesis
    unfolding SendSlackRichNotificationWithRetry_def m
    by (subst retry_loop.simps)
       (simp add: send_ok_url [OF assms(1,2)] e retry_last [of _ _ _ _ _ 0, simplified]
          delivery_schedule_def)
next
  case (Suc d)
  let ?msg = "rich_message pn ds po"
  let ?s1 = "s\<lparr>trace := trace s @ [HttpPost url ?msg]\<rparr>"
  from assms(4) obtain e where
    e: "response_error (http_do w (posts (trace s)) url ?msg) = Some e"
    by (metis add.right_neutral not_Some_eq zero_le)
  have step: "retry_loop w url pn ds po m 0 None s = retry_loop w url pn ds po m (int 1) (Some e) ?s1"
    using assms(3) e by (subst retry_loop.simps) (simp add: send_ok_url [OF assms(1,2)])
  have rest: "retry_loop w url pn ds po m (int 1) (Some e) ?s1 =
      (Some (FailedAfterRetries (m + 1)
         (response_error (http_do w (posts (trace ?s1) + d) url ?msg))),
       ?s1\<lparr>trace := trace ?s1 @
          concat (map (\<lambda>i. [Sleep (backoff (int i)), HttpPost url ?msg]) [1..<1 + Suc d])\<rparr>)"
  proof (rule retry_exhausted_from [OF assms(1,2)])
    show "1 \<le> (1::nat)" by simp
    show "int 1 + int d = m" using assms(3) Suc by simp
    show "\<forall>i\<le>d. response_error (http_do w (posts (trace ?s1) + i) url ?msg) \<noteq> None"
    proof (intro allI impI)
      fix i assume "i \<le> d"
      then have "Suc i \<le> nat m" using Suc by simp
      with assms(4) have "response_error (http_do w (posts (trace s) + Suc i) url ?msg) \<noteq> None"
        by blast
      then show "response_error (http_do w (posts (trace ?s1) + i) url ?msg) \<noteq> None"
        by (simp add: posts_def)
    qed
  qed
  show ?thesis
    unfolding SendSlackRichNotificationWithRetry_def step rest
    by (simp add: delivery_schedule_def Suc posts_def)
qed

lemma delivery_bad_url:
  assumes "url = [] \<or> request_invalid w url" and "0 \<le> m"
  shows "SendSlackRichNotificationWithRetry w url pn ds po m s =
           (Some (FailedAfterRetries (m + 1)
              (Some (if url = [] then WebhookURLEmpty else CreateRequestFailed))),
            s\<lparr>trace := trace s @ map (\<lambda>i. Sleep (backoff (int i))) [1..<Suc (nat m)]\<rparr>)"
proof (cases "nat m")
  case 0
  with assms(2) have m: "m = 0" by simp
  show ?thesis
    unfolding SendSlackRichNotificationWithRetry_def m
    by (subst retry_loop.simps)
       (simp add: send_bad_url [OF assms(1)] retry_last [of _ _ _ _ _ 0, simplified])
next
  case (Suc d)
  let ?e = "if url = [] then WebhookURLEmpty else CreateRequestFailed"
  have step: "retry_loop w url pn ds po m 0 None s = retry_loop w url pn ds po m (int 1) (Some ?e) s"
    using assms(2) by (subst retry_loop.simps) (simp add: send_bad_url [OF assms(1)])
  have rest: "retry_loop w url pn ds po m (int 1) (Some ?e) s =
      (Some (FailedAfterRetries (m + 1) (Some ?e)),
       s\<lparr>trace := trace s @ map (\<lambda>i. Sleep (backoff (int i))) [1..<1 + Suc d]\<rparr>)"
    using assms(2) Suc by (intro retry_bad_url_from [OF assms(1)]) simp_all
  show ?thesis
    unfolding SendSlackRichNotificationWithRetry_def step rest
    by (simp add: Suc)
qed

lemma steady_500_fails:
  "response_error (http_do (steady_world c 500) n url msg) = Some (SlackStatus 500)"
  by (simp add: steady_world_def response_error_def)

text \<open>
  The delivery policy of \<open>SendSlackRichNotificationWithRetry\<close>, for
  \<open>0 \<le> maxRetries < 2^63 - 1\<close> (the range on which the attempt counter, a 64-bit
  integer in the program, does not overflow) and with \<open>n\<close> POSTs made before the call.
  The call makes at most \<open>maxRetries + 1\<close> POSTs; with a well-formed URL, if the first
  \<open>k \<le> maxRetries\<close> POSTs fail and the next succeeds, it returns nil and has made
  exactly the \<open>k + 1\<close> POSTs of \<open>delivery_schedule\<close>, the wait \<open>backoff i\<close> before retry
  \<open>i\<close>, and nothing after the success; if all \<open>maxRetries + 1\<close> POSTs fail, it returns
  the error of the last one wrapped with the count \<open>maxRetries + 1\<close>; an empty or
  malformed URL fails every attempt without a POST, with the same waits and the same
  wrapping. The wait before retry \<open>i\<close> is \<open>2^(i-1)\<close> seconds for the retries 1 to 34.
\<close>

theorem retry_delivery_policy:
  assumes "0 \<le> maxRetries" and "maxRetries < 2 ^ 63 - 1"
  shows
    "posts (trace (snd (SendSlackRichNotificationWithRetry w url pn ds po maxRetries s)))
       \<le> posts (trace s) + nat (maxRetries + 1) \<and>
     (\<forall>k. url \<noteq> [] \<and> \<not> request_invalid w url \<and> int k \<le> maxRetries \<and>
          (\<forall>i<k. response_error (http_do w (posts (trace s) + i) url (rich_message pn ds po)) \<noteq> None) \<and>
          response_error (http_do w (posts (trace s) + k) url (rich_message pn ds po)) = None \<longrightarrow>
          SendSlackRichNotificationWithRetry w url pn ds po maxRetries s =
            (None, s\<lparr>trace := trace s @ delivery_schedule url (rich_message pn ds po) k\<rparr>)) \<and>
     (url \<noteq> [] \<and> \<not> request_invalid w url \<and>
        (\<forall>i\<le>nat maxRetries.
           response_error (http_do w (posts (trace s) + i) url (rich_message pn ds po)) \<noteq> None) \<longrightarrow>
        SendSlackRichNotificationWithRetry w url pn ds po maxRetries s =
          (Some (FailedAfterRetries (maxRetries + 1)
             (response_error (http_do w (posts (trace s) + nat maxRetries) url (rich_message pn ds po)))),
           s\<lparr>trace := trace s @ delivery_schedule url (rich_message pn ds po) (nat maxRetries)\<rparr>)) \<and>
     (url = [] \<or> request_invalid w url \<longrightarrow>
        SendSlackRichNotificationWithRetry w url pn ds po maxRetries s =
          (Some (FailedAfterRetries (maxRetries + 1)
             (Some (if url = [] then WebhookURLEmpty else CreateRequestFailed))),
           s\<lparr>trace := trace s @ map (\<lambda>i. Sleep (backoff (int i))) [1..<Suc (nat maxRetries)]\<rparr>)) \<and>
     (\<forall>i. 1 \<le> i \<and> i \<le> 34 \<longrightarrow> sint (backoff i) = 2 ^ nat (i - 1) * 1000000000)"
proof (intro conjI allI impI)
  show "posts (trace (snd (SendSlackRichNotificationWithRetry w url pn ds po maxRetries s)))
       \<le> posts (trace s) + nat (maxRetries + 1)"
    using retry_posts_bound [of w url pn ds po maxRetries 0 None s]
    by (simp add: SendSlackRichNotificationWithRetry_def)
next
  fix k
  assume "url \<noteq> [] \<and> \<not> request_invalid w url \<and> int k \<le> maxRetries \<and>
          (\<forall>i<k. response_error (http_do w (posts (trace s) + i) url (rich_message pn ds po)) \<noteq> None) \<and>
          response_error (http_do w (posts (trace s) + k) url (rich_message pn ds po)) = None"
  then show "SendSlackRichNotificationWithRetry w url pn ds po maxRetries s =
            (None, s\<lparr>trace := trace s @ delivery_schedule url (rich_message pn ds po) k\<rparr>)"
    by (intro delivery_success) simp_all
next
  assume "url \<noteq> [] \<and> \<not> request_invalid w url \<and>
        (\<forall>i\<le>nat maxRetries.
           response_error (http_do w (posts (trace s) + i) url (rich_message pn ds po)) \<noteq> None)"
  then show "SendSlackRichNotificationWithRetry w url pn ds po maxRetries s =
          (Some (FailedAfterRetries (maxRetries + 1)
             (response_error (http_do w (posts (trace s) + nat maxRetries) url (rich_message pn ds po)))),
           s\<lparr>trace := trace s @ delivery_schedule url (rich_message pn ds po) (nat maxRetries)\<rparr>)"
    using assms(1) by (intro delivery_exhausted) simp_all
next
  assume "url = [] \<or> request_invalid w url"
  then show "SendSlackRichNotificationWithRetry w url pn ds po maxRetries s =
          (Some (FailedAfterRetries (maxRetries + 1)
             (Some (if url = [] then WebhookURLEmpty else CreateRequestFailed))),
           s\<lparr>trace := trace s @ map (\<lambda>i. Sleep (backoff (int i))) [1..<Suc (nat maxRetries)]\<rparr>)"
    using assms(1) by (rule delivery_bad_url)
next
  fix i :: int
  assume "1 \<le> i \<and> i \<le> 34"
  then show "sint (backoff i) = 2 ^ nat (i - 1) * 1000000000"
    by (intro backoff_doubles) simp_all
qed

text \<open>
  The delivery policy with three retries, the number that \<open>sendNotification\<close> passes: a
  channel that always answers 500, one that answers 500 once, and an empty URL.
\<close>

theorem retry_delivery_policy_witness:
  "(0::int) \<le> 3 \<and> (3::int) < 2 ^ 63 - 1 \<and>
   SendSlackRichNotificationWithRetry (steady_world 2 500) hook ''app'' ''summary'' ''drift'' 3 start =
     (Some (FailedAfterRetries 4 (Some (SlackStatus 500))),
      start\<lparr>trace := delivery_schedule hook (rich_message ''app'' ''summary'' ''drift'') 3\<rparr>) \<and>
   SendSlackRichNotificationWithRetry flaky_world hook ''app'' ''summary'' ''drift'' 3 start =
     (None, start\<lparr>trace := delivery_schedule hook (rich_message ''app'' ''summary'' ''drift'') 1\<rparr>) \<and>
   SendSlackRichNotificationWithRetry flaky_world [] ''app'' ''summary'' ''drift'' 3 start =
     (Some (FailedAfterRetries 4 (Some WebhookURLEmpty)),
      start\<lparr>trace := [Sleep (backoff 1), Sleep (backoff 2), Sleep (backoff 3)]\<rparr>) \<and>
   sint (backoff 1) = 1000000000 \<and> sint (backoff 2) = 2000000000 \<and>
   sint (backoff 3) = 4000000000"
proof -
  have r: "(0::int) \<le> 3" "(3::int) < 2 ^ 63 - 1" by simp_all
  note t1 = retry_delivery_policy [OF r, of "steady_world 2 500" hook "''app''" "''summary''"
      "''drift''" start]
  note t2 = retry_delivery_policy [OF r, of flaky_world hook "''app''" "''summary''"
      "''drift''" start]
  note t3 = retry_delivery_policy [OF r, of flaky_world "[]" "''app''" "''summary''"
      "''drift''" start]
  have h: "hook \<noteq> []" by (simp add: hook_def)
  have v1: "\<not> request_invalid (steady_world 2 500) hook" by (simp add: steady_world_def)
  have v2: "\<not> request_invalid flaky_world hook" by (simp add: flaky_world_def)
  have a: "SendSlackRichNotificationWithRetry (steady_world 2 500) hook ''app'' ''summary'' ''drift'' 3 start =
     (Some (FailedAfterRetries 4 (Some (SlackStatus 500))),
      start\<lparr>trace := delivery_schedule hook (rich_message ''app'' ''summary'' ''drift'') 3\<rparr>)"
    using t1 h v1 by (simp add: steady_500_fails start_def)
  have p0: "posts (trace start) = 0" by (simp add: start_def posts_def)
  have "int 1 \<le> 3 \<and>
        (\<forall>i<1. response_error (http_do flaky_world (posts (trace start) + i) hook
                   (rich_message ''app'' ''summary'' ''drift'')) \<noteq> None) \<and>
        response_error (http_do flaky_world (posts (trace start) + 1) hook
                   (rich_message ''app'' ''summary'' ''drift'')) = None"
    by (simp add: p0 flaky_world_def response_error_def)
  with t2 h v2 have b: "SendSlackRichNotificationWithRetry flaky_world hook ''app'' ''summary'' ''drift'' 3 start =
     (None, start\<lparr>trace := delivery_schedule hook (rich_message ''app'' ''summary'' ''drift'') 1\<rparr>)"
    by (simp add: start_def)
  have c: "SendSlackRichNotificationWithRetry flaky_world [] ''app'' ''summary'' ''drift'' 3 start =
     (Some (FailedAfterRetries 4 (Some WebhookURLEmpty)),
      start\<lparr>trace := [Sleep (backoff 1), Sleep (backoff 2), Sleep (backoff 3)]\<rparr>)"
    using t3 by (simp add: start_def upt_conv_Cons)
  have d: "sint (backoff 1) = 1000000000 \<and> sint (backoff 2) = 2000000000 \<and>
           sint (backoff 3) = 4000000000"
    using t1 by simp
  from r a b c d show ?thesis by (simp only: simp_thms)
qed


section \<open>Credentials across projects\<close>

text \<open>
  Claim C1, evaluated where it fails. In a run over two enabled projects, the first
  with an AWS profile and the second with an Azure profile, the \<^verbatim>\<open>terraform init\<close>
  and \<^verbatim>\<open>terraform plan\<close> of the second project still receive the AWS secret of the
  first: the deferred \<open>clearAuthEnvironment\<close> runs only when \<open>RunWithResult\<close> returns,
  after which the variable is unset.
\<close>

theorem credentials_survive_into_next_project:
  "seen_by_processes ''AWS_SECRET_ACCESS_KEY''
     (trace (snd (RunWithResult (steady_world 0 200) two_cloud_config start))) =
     [([], None),
      (''/srv/aws'', Some ''s3cr3t''), (''/srv/aws'', Some ''s3cr3t''),
      (''/srv/azure'', Some ''s3cr3t''), (''/srv/azure'', Some ''s3cr3t'')] \<and>
   env (snd (RunWithResult (steady_world 0 200) two_cloud_config start))
     ''AWS_SECRET_ACCESS_KEY'' = None"
  by code_simp

section \<open>Plan summary\<close>

text \<open>
  Claim C8, evaluated where it fails. A plan with exactly ten resource-change entries
  and none beyond them is summarised with all ten entries followed by the marker that
  announces more changes.
\<close>

theorem ExtractPlanSummary_marks_exactly_ten:
  "ExtractPlanSummary ten_changes_plan =
     ''Plan: 10 to add, 0 to change, 0 to destroy.'' @ [CHR 0x0A, CHR 0x0A] @
     ''Resource Changes Detected:'' @
     concat (map (\<lambda>change. [CHR 0x0A] @ ''  '' @ change)
       [''r0 will be created'', ''r1 will be created'', ''r2 will be created'',
        ''r3 will be created'', ''r4 will be created'', ''r5 will be created'',
        ''r6 will be created'', ''r7 will be created'', ''r8 will be created'',
        ''r9 will be created'']) @
     [CHR 0x0A] @ ''  ... (more changes, see full plan for details)''"
  by code_simp

end
